theory Spec2Isabelle
  imports Main
begin

section \<open>The socket service (src/services/socket.js)\<close>

text \<open>
  The service wraps one socket.io client socket. The socket itself is library code, so
  it is modelled by what the service can observe of it and do to it: the
  \<open>connected\<close> flag it reads, and the calls it makes on it, recorded in order. The
  messages put on the wire are the \<open>SockEmit\<close> calls of that record.
  \<open>Date.now()\<close> is passed in as the argument \<open>now\<close>.
\<close>

type_synonym session_id = string
type_synonym event_name = string

record user =
  user_id :: string
  username :: string
  profile :: string

record position =
  line :: nat
  column :: nat

datatype payload =
    AuthenticateP string string string
  | JoinSessionP session_id user
  | LeaveSessionP session_id
  | CodeChangeP session_id string string nat
  | CursorPositionP session_id position nat
  | ExecuteCodeP session_id string string string nat
  | ChatMessageP session_id string nat

datatype 'cb sock_call =
    SockEmit event_name payload
  | SockOn event_name 'cb
  | SockOff event_name 'cb
  | SockRemoveAllListeners event_name
  | SockConnect
  | SockDisconnect

text \<open>The options \<open>connect\<close> passes to \<open>io(serverUrl, ...)\<close>.\<close>

record io_options =
  transports :: "string list"
  timeout :: nat
  forceNew :: bool
  reconnection :: bool
  reconnectionDelay :: nat
  reconnectionAttempts :: nat

record 'cb socket =
  connected :: bool
  options :: io_options
  calls :: "'cb sock_call list"

text \<open>
  \<open>eventListeners\<close> is a JavaScript \<open>Map\<close> from event names to \<open>Set\<close>s of callbacks.
  A \<open>Set\<close> iterates in insertion order and holds each element once, so it is a list
  in which \<open>set_add\<close> appends only an element that is not yet there.
\<close>

record 'cb socket_service =
  socket :: "'cb socket option"
  isConnected :: bool
  eventListeners :: "event_name \<rightharpoonup> 'cb list"
  reconnectAttempts :: nat
  maxReconnectAttempts :: nat
  reconnectDelay :: nat

definition constructor :: "'cb socket_service" where
  "constructor = \<lparr> socket = None, isConnected = False, eventListeners = Map.empty,
     reconnectAttempts = 0, maxReconnectAttempts = 5, reconnectDelay = 1000 \<rparr>"

text \<open>\<open>this.socket?.connected\<close>: false when there is no socket.\<close>

definition socket_connected :: "'cb socket_service \<Rightarrow> bool" where
  "socket_connected st = (case socket st of None \<Rightarrow> False | Some s \<Rightarrow> connected s)"

text \<open>A call on the socket, on a service that has one.\<close>

definition socket_call :: "'cb sock_call \<Rightarrow> 'cb socket_service \<Rightarrow> 'cb socket_service" where
  "socket_call c st =
     (case socket st of
        None \<Rightarrow> st
      | Some s \<Rightarrow> st\<lparr> socket := Some (s\<lparr> calls := calls s @ [c] \<rparr>) \<rparr>)"

text \<open>\<open>this.socket.emit(name, payload)\<close>.\<close>

definition socket_emit :: "event_name \<Rightarrow> payload \<Rightarrow> 'cb socket_service \<Rightarrow> 'cb socket_service" where
  "socket_emit name p st = socket_call (SockEmit name p) st"

text \<open>The messages a service has put on the wire so far, oldest first.\<close>

fun emitted :: "'cb sock_call list \<Rightarrow> (event_name \<times> payload) list" where
  "emitted [] = []"
| "emitted (SockEmit name p # cs) = (name, p) # emitted cs"
| "emitted (_ # cs) = emitted cs"

definition wire :: "'cb socket_service \<Rightarrow> (event_name \<times> payload) list" where
  "wire st = (case socket st of None \<Rightarrow> [] | Some s \<Rightarrow> emitted (calls s))"

subsection \<open>Outbound operations\<close>

definition authenticate :: "user \<Rightarrow> 'cb socket_service \<Rightarrow> 'cb socket_service" where
  "authenticate u st =
     (if \<not> socket_connected st then st
      else socket_emit ''authenticate'' (AuthenticateP (user_id u) (username u) (profile u)) st)"

text \<open>\<open>joinSession\<close> returns the flag the source returns together with the new state.\<close>

definition joinSession :: "session_id \<Rightarrow> user \<Rightarrow> 'cb socket_service \<Rightarrow> bool \<times> 'cb socket_service" where
  "joinSession sid u st =
     (if \<not> socket_connected st then (False, st)
      else (True, socket_emit ''join-session''
              (JoinSessionP sid \<lparr> user_id = user_id u, username = username u, profile = profile u \<rparr>) st))"

definition leaveSession :: "session_id \<Rightarrow> 'cb socket_service \<Rightarrow> 'cb socket_service" where
  "leaveSession sid st =
     (if \<not> socket_connected st then st
      else socket_emit ''leave-session'' (LeaveSessionP sid) st)"

definition sendCodeChange ::
  "nat \<Rightarrow> session_id \<Rightarrow> string \<Rightarrow> string \<Rightarrow> 'cb socket_service \<Rightarrow> 'cb socket_service" where
  "sendCodeChange now sid code operation st =
     (if \<not> socket_connected st then st
      else socket_emit ''code-change'' (CodeChangeP sid code operation now) st)"

definition sendCursorPosition ::
  "nat \<Rightarrow> session_id \<Rightarrow> position \<Rightarrow> 'cb socket_service \<Rightarrow> 'cb socket_service" where
  "sendCursorPosition now sid pos st =
     (if \<not> socket_connected st then st
      else socket_emit ''cursor-position'' (CursorPositionP sid pos now) st)"

definition executeCode ::
  "nat \<Rightarrow> session_id \<Rightarrow> string \<Rightarrow> string \<Rightarrow> string \<Rightarrow> 'cb socket_service \<Rightarrow> 'cb socket_service" where
  "executeCode now sid code language input st =
     (if \<not> socket_connected st then st
      else socket_emit ''execute-code'' (ExecuteCodeP sid code language input now) st)"

definition sendChatMessage ::
  "nat \<Rightarrow> session_id \<Rightarrow> string \<Rightarrow> 'cb socket_service \<Rightarrow> 'cb socket_service" where
  "sendChatMessage now sid message st =
     (if \<not> socket_connected st then st
      else socket_emit ''chat-message'' (ChatMessageP sid message now) st)"

subsection \<open>The listener registry: on, off, removeAllListeners, emit\<close>

definition set_add :: "'a \<Rightarrow> 'a list \<Rightarrow> 'a list" where
  "set_add x xs = (if x \<in> set xs then xs else xs @ [x])"

definition set_delete :: "'a \<Rightarrow> 'a list \<Rightarrow> 'a list" where
  "set_delete x xs = removeAll x xs"

definition on :: "event_name \<Rightarrow> 'cb \<Rightarrow> 'cb socket_service \<Rightarrow> 'cb socket_service" where
  "on eventName callback st =
     (if socket st = None then st
      else
        let st1 = socket_call (SockOn eventName callback) st;
            st2 = (if eventListeners st1 eventName = None
                   then st1\<lparr> eventListeners := (eventListeners st1)(eventName \<mapsto> []) \<rparr>
                   else st1)
        in case eventListeners st2 eventName of
             None \<Rightarrow> st2
           | Some cbs \<Rightarrow>
               st2\<lparr> eventListeners := (eventListeners st2)(eventName \<mapsto> set_add callback cbs) \<rparr>)"

definition off :: "event_name \<Rightarrow> 'cb \<Rightarrow> 'cb socket_service \<Rightarrow> 'cb socket_service" where
  "off eventName callback st =
     (if socket st = None then st
      else
        let st1 = socket_call (SockOff eventName callback) st
        in case eventListeners st1 eventName of
             None \<Rightarrow> st1
           | Some cbs \<Rightarrow>
               st1\<lparr> eventListeners := (eventListeners st1)(eventName \<mapsto> set_delete callback cbs) \<rparr>)"

definition removeAllListeners :: "event_name \<Rightarrow> 'cb socket_service \<Rightarrow> 'cb socket_service" where
  "removeAllListeners eventName st =
     (if socket st = None then st
      else
        let st1 = socket_call (SockRemoveAllListeners eventName) st
        in st1\<lparr> eventListeners := (eventListeners st1)(eventName := None) \<rparr>)"

text \<open>
  \<open>emit\<close> runs the callbacks registered for an event, each inside \<open>try\<close>/\<open>catch\<close>.
  A callback is run by \<open>run\<close> on the event's data and on the state \<open>'w\<close> it acts on; it
  returns that state as it left it, and \<open>Some err\<close> when it threw \<open>err\<close>. The delivery
  records which callbacks were called, in order, and what the \<open>catch\<close> wrote to
  \<open>console.error\<close>. Callbacks that call \<open>on\<close> or \<open>off\<close> while the event is being
  delivered are outside this model.
\<close>

record ('cb, 'x, 'w) delivery =
  invoked :: "'cb list"
  logged :: "(event_name \<times> 'x) list"
  world :: 'w

fun forEach_callback ::
  "('cb \<Rightarrow> 'd \<Rightarrow> 'w \<Rightarrow> 'w \<times> 'x option) \<Rightarrow> event_name \<Rightarrow> 'd \<Rightarrow> 'cb list
     \<Rightarrow> ('cb, 'x, 'w) delivery \<Rightarrow> ('cb, 'x, 'w) delivery" where
  "forEach_callback run eventName d [] dl = dl"
| "forEach_callback run eventName d (callback # cbs) dl =
     (case run callback d (world dl) of
        (w', None) \<Rightarrow>
          forEach_callback run eventName d cbs
            (dl\<lparr> invoked := invoked dl @ [callback], world := w' \<rparr>)
      | (w', Some err) \<Rightarrow>
          forEach_callback run eventName d cbs
            (dl\<lparr> invoked := invoked dl @ [callback],
                 logged := logged dl @ [(eventName, err)], world := w' \<rparr>))"

definition emit ::
  "('cb \<Rightarrow> 'd \<Rightarrow> 'w \<Rightarrow> 'w \<times> 'x option) \<Rightarrow> event_name \<Rightarrow> 'd \<Rightarrow> 'cb socket_service \<Rightarrow> 'w
     \<Rightarrow> ('cb, 'x, 'w) delivery" where
  "emit run eventName d st w =
     (case eventListeners st eventName of
        None \<Rightarrow> \<lparr> invoked = [], logged = [], world = w \<rparr>
      | Some cbs \<Rightarrow>
          forEach_callback run eventName d cbs \<lparr> invoked = [], logged = [], world = w \<rparr>)"

text \<open>
  \<open>on\<close> and \<open>off\<close> also call \<open>socket.on\<close> and \<open>socket.off\<close>, and events that the
  server sends are delivered by the socket itself, not by \<open>emit\<close>. The socket's emitter
  is code of the socket.io client: it keeps one array of callbacks per event; \<open>on\<close>
  pushes the callback, also when it is in the array already; \<open>off\<close> removes the first
  entry that is the callback; \<open>removeAllListeners\<close> drops the array. To deliver an
  event it calls the entries in order and catches nothing, so a throw ends the delivery
  and leaves the socket's code as an exception. The array is read off the calls
  recorded on the socket.
\<close>

fun listener_step :: "event_name \<Rightarrow> 'cb sock_call \<Rightarrow> 'cb list \<Rightarrow> 'cb list" where
  "listener_step e (SockOn e' cb) xs = (if e' = e then xs @ [cb] else xs)"
| "listener_step e (SockOff e' cb) xs = (if e' = e then remove1 cb xs else xs)"
| "listener_step e (SockRemoveAllListeners e') xs = (if e' = e then [] else xs)"
| "listener_step e _ xs = xs"

definition socket_listeners :: "'cb socket_service \<Rightarrow> event_name \<Rightarrow> 'cb list" where
  "socket_listeners st e =
     (case socket st of
        None \<Rightarrow> []
      | Some s \<Rightarrow> foldl (\<lambda>xs c. listener_step e c xs) [] (calls s))"



text \<open>A sequence of \<open>on\<close>/\<open>off\<close> calls, applied in order.\<close>

datatype 'cb reg_call = On event_name 'cb | Off event_name 'cb

fun apply_call :: "'cb reg_call \<Rightarrow> 'cb socket_service \<Rightarrow> 'cb socket_service" where
  "apply_call (On e cb) st = on e cb st"
| "apply_call (Off e cb) st = off e cb st"

fun apply_calls :: "'cb reg_call list \<Rightarrow> 'cb socket_service \<Rightarrow> 'cb socket_service" where
  "apply_calls [] st = st"
| "apply_calls (c # cs) st = apply_calls cs (apply_call c st)"


subsection \<open>connect, disconnect and the handlers of setupEventListeners\<close>

text \<open>
  \<open>connect\<close> keeps a connected socket and otherwise creates a new one. The handlers
  that \<open>setupEventListeners\<close> puts on the new socket are the functions \<open>handle_...\<close>
  below; the socket.io client calls them when the transport event occurs.
\<close>

definition connect :: "'cb socket_service \<Rightarrow> 'cb socket_service" where
  "connect st =
     (if socket_connected st then st
      else st\<lparr> socket := Some \<lparr> connected = False,
             options = \<lparr> transports = [''websocket'', ''polling''], timeout = 20000,
               forceNew = True, reconnection = True,
               reconnectionDelay = reconnectDelay st,
               reconnectionAttempts = maxReconnectAttempts st \<rparr>,
             calls = [] \<rparr> \<rparr>)"

definition disconnect :: "'cb socket_service \<Rightarrow> 'cb socket_service" where
  "disconnect st =
     (case socket st of
        None \<Rightarrow> st
      | Some s \<Rightarrow>
          (socket_call SockDisconnect (st\<lparr> eventListeners := Map.empty \<rparr>))
            \<lparr> socket := None, isConnected := False \<rparr>)"

datatype toast = ToastError string | ToastSuccess string | ToastPlain string

text \<open>
  The state of the \<open>useSocket\<close> hook (src/hooks/useSocket.js) together with the toasts
  shown so far. The status strings of the source are the constructors of \<open>status\<close>.
\<close>

datatype status = Disconnected | Connecting | Connected | Error | AuthError

record ui =
  connectionStatus :: status
  isConnecting :: bool
  toasts :: "toast list"

definition toast_error :: "string \<Rightarrow> ui \<Rightarrow> ui" where
  "toast_error m w = w\<lparr> toasts := toasts w @ [ToastError m] \<rparr>"

definition toast_success :: "string \<Rightarrow> ui \<Rightarrow> ui" where
  "toast_success m w = w\<lparr> toasts := toasts w @ [ToastSuccess m] \<rparr>"

text \<open>The data a custom event carries to its listeners.\<close>

datatype event_data = NoData | Reason string | Failure string | Attempt nat

text \<open>\<open>data.message || fallback\<close>: an absent or empty message gives the fallback.\<close>

definition or_default :: "string \<Rightarrow> string \<Rightarrow> string" where
  "or_default m fallback = (if m = [] then fallback else m)"

definition handle_connect ::
  "('cb \<Rightarrow> event_data \<Rightarrow> ui \<Rightarrow> ui \<times> 'x option) \<Rightarrow> user option
     \<Rightarrow> 'cb socket_service \<times> ui \<Rightarrow> 'cb socket_service \<times> ui" where
  "handle_connect run u = (\<lambda>(st, w).
     let st1 = st\<lparr> isConnected := True, reconnectAttempts := 0 \<rparr>;
         st2 = (case u of None \<Rightarrow> st1 | Some usr \<Rightarrow> authenticate usr st1)
     in (st2, world (emit run ''custom:connected'' NoData st2 w)))"

definition handle_disconnect ::
  "('cb \<Rightarrow> event_data \<Rightarrow> ui \<Rightarrow> ui \<times> 'x option) \<Rightarrow> string
     \<Rightarrow> 'cb socket_service \<times> ui \<Rightarrow> 'cb socket_service \<times> ui" where
  "handle_disconnect run reason = (\<lambda>(st, w).
     let st1 = st\<lparr> isConnected := False \<rparr>;
         w1 = world (emit run ''custom:disconnected'' (Reason reason) st1 w)
     in if reason = ''io server disconnect'' then (socket_call SockConnect st1, w1)
        else (st1, w1))"

definition handle_connect_error ::
  "('cb \<Rightarrow> event_data \<Rightarrow> ui \<Rightarrow> ui \<times> 'x option) \<Rightarrow> string
     \<Rightarrow> 'cb socket_service \<times> ui \<Rightarrow> 'cb socket_service \<times> ui" where
  "handle_connect_error run err = (\<lambda>(st, w).
     let st1 = st\<lparr> reconnectAttempts := reconnectAttempts st + 1 \<rparr>;
         w1 = (if reconnectAttempts st1 \<ge> maxReconnectAttempts st1
               then toast_error ''Unable to connect to server. Please refresh the page.'' w
               else w)
     in (st1, world (emit run ''custom:connect_error'' (Failure err) st1 w1)))"

definition handle_reconnect ::
  "('cb \<Rightarrow> event_data \<Rightarrow> ui \<Rightarrow> ui \<times> 'x option) \<Rightarrow> nat
     \<Rightarrow> 'cb socket_service \<times> ui \<Rightarrow> 'cb socket_service \<times> ui" where
  "handle_reconnect run attemptNumber = (\<lambda>(st, w).
     let w1 = toast_success ''Connection restored'' w
     in (st, world (emit run ''custom:reconnected'' (Attempt attemptNumber) st w1)))"

definition handle_reconnect_failed ::
  "('cb \<Rightarrow> event_data \<Rightarrow> ui \<Rightarrow> ui \<times> 'x option)
     \<Rightarrow> 'cb socket_service \<times> ui \<Rightarrow> 'cb socket_service \<times> ui" where
  "handle_reconnect_failed run = (\<lambda>(st, w).
     let w1 = toast_error ''Failed to reconnect. Please refresh the page.'' w
     in (st, world (emit run ''custom:reconnect_failed'' NoData st w1)))"

definition handle_auth_success ::
  "('cb \<Rightarrow> event_data \<Rightarrow> ui \<Rightarrow> ui \<times> 'x option) \<Rightarrow> string
     \<Rightarrow> 'cb socket_service \<times> ui \<Rightarrow> 'cb socket_service \<times> ui" where
  "handle_auth_success run d = (\<lambda>(st, w).
     (st, world (emit run ''custom:auth-success'' (Reason d) st w)))"

definition handle_auth_error ::
  "('cb \<Rightarrow> event_data \<Rightarrow> ui \<Rightarrow> ui \<times> 'x option) \<Rightarrow> string
     \<Rightarrow> 'cb socket_service \<times> ui \<Rightarrow> 'cb socket_service \<times> ui" where
  "handle_auth_error run message = (\<lambda>(st, w).
     let w1 = toast_error (or_default message ''Authentication failed'') w
     in (st, world (emit run ''custom:auth-error'' (Failure message) st w1)))"

definition handle_error ::
  "('cb \<Rightarrow> event_data \<Rightarrow> ui \<Rightarrow> ui \<times> 'x option) \<Rightarrow> string
     \<Rightarrow> 'cb socket_service \<times> ui \<Rightarrow> 'cb socket_service \<times> ui" where
  "handle_error run message = (\<lambda>(st, w).
     let w1 = toast_error (or_default message ''Connection error occurred'') w
     in (st, world (emit run ''custom:error'' (Failure message) st w1)))"

text \<open>The transport events of the socket, and the handler each one reaches.\<close>

datatype socket_event =
    Connect
  | Disconnect string
  | ConnectError string
  | Reconnect nat
  | ReconnectFailed
  | AuthSuccess string
  | AuthErrorEvent string
  | ErrorEvent string

fun deliver ::
  "('cb \<Rightarrow> event_data \<Rightarrow> ui \<Rightarrow> ui \<times> 'x option) \<Rightarrow> user option \<Rightarrow> socket_event
     \<Rightarrow> 'cb socket_service \<times> ui \<Rightarrow> 'cb socket_service \<times> ui" where
  "deliver run u Connect s = handle_connect run u s"
| "deliver run u (Disconnect reason) s = handle_disconnect run reason s"
| "deliver run u (ConnectError err) s = handle_connect_error run err s"
| "deliver run u (Reconnect n) s = handle_reconnect run n s"
| "deliver run u ReconnectFailed s = handle_reconnect_failed run s"
| "deliver run u (AuthSuccess d) s = handle_auth_success run d s"
| "deliver run u (AuthErrorEvent m) s = handle_auth_error run m s"
| "deliver run u (ErrorEvent m) s = handle_error run m s"

fun deliver_all ::
  "('cb \<Rightarrow> event_data \<Rightarrow> ui \<Rightarrow> ui \<times> 'x option) \<Rightarrow> user option \<Rightarrow> socket_event list
     \<Rightarrow> 'cb socket_service \<times> ui \<Rightarrow> 'cb socket_service \<times> ui" where
  "deliver_all run u [] s = s"
| "deliver_all run u (ev # evs) s = deliver_all run u evs (deliver run u ev s)"

subsection \<open>useSocket: the connection status\<close>

text \<open>
  The six listeners that \<open>setupConnectionListeners\<close> registers with the service, and
  what each does to the hook's state. None of them throws. One call of
  \<open>setupConnectionListeners\<close> is modelled: the hook calls it once per socket,
  in \<open>connectSocket\<close>, and \<open>disconnect\<close> empties the registry. Every call creates
  six new closures, so a second instance of the hook registers its own six beside
  these; the model has the listeners, and the status, of one instance.
\<close>

datatype conn_cb =
  OnConnected | OnDisconnected | OnReconnected | OnConnectError | OnAuthSuccess | OnAuthError

fun run_conn_cb :: "conn_cb \<Rightarrow> event_data \<Rightarrow> ui \<Rightarrow> ui \<times> string option" where
  "run_conn_cb OnConnected d w = (w\<lparr> connectionStatus := Connected \<rparr>, None)"
| "run_conn_cb OnDisconnected d w = (w\<lparr> connectionStatus := Disconnected \<rparr>, None)"
| "run_conn_cb OnReconnected d w =
     (toast_success ''Real-time connection restored'' (w\<lparr> connectionStatus := Connected \<rparr>), None)"
| "run_conn_cb OnConnectError d w = (w\<lparr> connectionStatus := Error \<rparr>, None)"
| "run_conn_cb OnAuthSuccess d w = (w, None)"
| "run_conn_cb OnAuthError d w = (w\<lparr> connectionStatus := AuthError \<rparr>, None)"

definition setupConnectionListeners :: "conn_cb socket_service \<Rightarrow> conn_cb socket_service" where
  "setupConnectionListeners st =
     (if socket st = None then st
      else
        on ''custom:auth-error'' OnAuthError
          (on ''custom:auth-success'' OnAuthSuccess
            (on ''custom:connect_error'' OnConnectError
              (on ''custom:reconnected'' OnReconnected
                (on ''custom:disconnected'' OnDisconnected
                  (on ''custom:connected'' OnConnected st))))))"

text \<open>
  \<open>connectSocket\<close> for a signed-in user: the status becomes \<open>connecting\<close>, the service
  connects, the listeners are registered, and \<open>isConnecting\<close> is cleared again.
\<close>

definition connectSocket ::
  "user option \<Rightarrow> conn_cb socket_service \<times> ui \<Rightarrow> conn_cb socket_service \<times> ui" where
  "connectSocket u = (\<lambda>(st, w).
     if u = None \<or> isConnecting w then (st, w)
     else
       let w1 = w\<lparr> isConnecting := True, connectionStatus := Connecting \<rparr>;
           st1 = setupConnectionListeners (connect st)
       in (st1, w1\<lparr> isConnecting := False \<rparr>))"

definition useSocket_initial :: ui where
  "useSocket_initial = \<lparr> connectionStatus = Disconnected, isConnecting = False, toasts = [] \<rparr>"

section \<open>useSessionSocket: the session state (src/hooks/useSocket.js)\<close>

text \<open>
  The hook keeps six pieces of state and registers one listener per inbound event, once
  the socket is connected and a session id is set. Each listener is one case of
  \<open>session_event\<close>. The execution listeners store the fields of the event as they
  come, without looking at them, so these fields are optional values: \<open>None\<close> is a
  field that is \<open>null\<close> or absent in the event, and in the slot a field that holds
  \<open>null\<close> or was left out by the listener. The values themselves (an execution result,
  an execution error) are of the arbitrary types \<open>'r\<close> and \<open>'e\<close>.
\<close>

record participant =
  socketId :: string
  p_username :: string

record chat_message =
  msg_id :: nat
  msg_username :: string
  content :: string
  timestamp :: nat

record cursor =
  c_username :: string
  c_position :: position
  color :: string

record ('r, 'e) execution_state =
  isRunning :: bool
  result :: "'r option"
  error :: "'e option"
  executedBy :: "string option"

record ('r, 'e) session_state =
  participants :: "participant list"
  chatMessages :: "chat_message list"
  codeState :: string
  cursors :: "string \<rightharpoonup> cursor"
  typingUsers :: "string list"
  executionState :: "('r, 'e) execution_state"
  session_toasts :: "toast list"

definition useSessionSocket_initial :: "('r, 'e) session_state" where
  "useSessionSocket_initial =
     \<lparr> participants = [], chatMessages = [], codeState = [], cursors = Map.empty,
       typingUsers = [],
       executionState = \<lparr> isRunning = False, result = None, error = None, executedBy = None \<rparr>,
       session_toasts = [] \<rparr>"

text \<open>The inbound events; \<open>from\<close> of a \<open>code-change\<close> may be absent.\<close>

datatype ('r, 'e) inbound =
    CodeSync string
  | CodeChange string string "string option"
  | SessionParticipants "participant list"
  | UserJoined participant
  | UserLeft string participant
  | CursorUpdate string string position string
  | TypingStatusUpdate string bool
  | ExecutionStarted "string option"
  | ExecutionResult "'r option" "string option"
  | ExecutionError "'e option"
  | ChatMessage chat_message

fun session_event :: "('r, 'e) inbound \<Rightarrow> ('r, 'e) session_state \<Rightarrow> ('r, 'e) session_state" where
  "session_event (CodeSync code) s = s\<lparr> codeState := code \<rparr>"
| "session_event (CodeChange code operation from) s = s\<lparr> codeState := code \<rparr>"
| "session_event (SessionParticipants participantsList) s = s\<lparr> participants := participantsList \<rparr>"
| "session_event (UserJoined u) s =
     s\<lparr> participants := participants s @ [u],
        session_toasts := session_toasts s @ [ToastSuccess (p_username u @ '' joined the session'')] \<rparr>"
| "session_event (UserLeft sid u) s =
     s\<lparr> participants := filter (\<lambda>p. socketId p \<noteq> sid) (participants s),
        session_toasts := session_toasts s @ [ToastPlain (p_username u @ '' left the session'')] \<rparr>"
| "session_event (CursorUpdate sid name pos col) s =
     s\<lparr> cursors := (cursors s)(sid \<mapsto> \<lparr> c_username = name, c_position = pos, color = col \<rparr>) \<rparr>"
| "session_event (TypingStatusUpdate name typing) s =
     s\<lparr> typingUsers := (if typing then set_add name (typingUsers s)
                          else set_delete name (typingUsers s)) \<rparr>"
| "session_event (ExecutionStarted name) s =
     s\<lparr> executionState :=
          \<lparr> isRunning = True, result = None, error = None, executedBy = name \<rparr> \<rparr>"
| "session_event (ExecutionResult r by) s =
     s\<lparr> executionState :=
          \<lparr> isRunning = False, result = r, error = None, executedBy = by \<rparr> \<rparr>"
| "session_event (ExecutionError e) s =
     s\<lparr> executionState :=
          \<lparr> isRunning = False, result = None, error = e, executedBy = None \<rparr> \<rparr>"
| "session_event (ChatMessage message) s = s\<lparr> chatMessages := chatMessages s @ [message] \<rparr>"

fun session_events :: "('r, 'e) inbound list \<Rightarrow> ('r, 'e) session_state \<Rightarrow> ('r, 'e) session_state" where
  "session_events [] s = s"
| "session_events (ev # evs) s = session_events evs (session_event ev s)"

text \<open>The hook's \<open>leaveSession\<close>: it passes the call on when it holds a socket.\<close>

definition hook_leaveSession :: "bool \<Rightarrow> session_id \<Rightarrow> 'cb socket_service \<Rightarrow> 'cb socket_service" where
  "hook_leaveSession socketRef sid st = (if socketRef then leaveSession sid st else st)"

section \<open>CodeEditor (src/components/Session/CodeEditor.js)\<close>

subsection \<open>The language templates\<close>

text \<open>
  The table of \<open>getLanguageTemplate\<close>, character by character; \<open>dq\<close> is the double
  quote and \<open>backslash\<close> the backslash, which a string literal here cannot hold.
\<close>

definition dq :: string where
  "dq = [CHR 0x22]"

definition backslash :: string where
  "backslash = [CHR 0x5C]"

definition template_javascript :: string where
  "template_javascript =
     ''// Welcome to CodeCollab - JavaScript Session\<newline>'' @
     ''// Start coding together in real-time!\<newline>'' @
     ''\<newline>'' @
     ''console.log('' @ dq @ ''Hello, World!'' @ dq @ '');\<newline>'' @
     ''\<newline>'' @
     ''// Try writing some code here...\<newline>'' @
     ''function fibonacci(n) {\<newline>'' @
     ''  if (n <= 1) return n;\<newline>'' @
     ''  return fibonacci(n - 1) + fibonacci(n - 2);\<newline>'' @
     ''}\<newline>'' @
     ''\<newline>'' @
     ''console.log('' @ dq @ ''Fibonacci(10):'' @ dq @ '', fibonacci(10));''"

definition template_python :: string where
  "template_python =
     ''# Welcome to CodeCollab - Python Session\<newline>'' @
     ''# Start coding together in real-time!\<newline>'' @
     ''\<newline>'' @
     ''print('' @ dq @ ''Hello, World!'' @ dq @ '')\<newline>'' @
     ''\<newline>'' @
     ''# Try writing some code here...\<newline>'' @
     ''def fibonacci(n):\<newline>'' @
     ''    if n <= 1:\<newline>'' @
     ''        return n\<newline>'' @
     ''    return fibonacci(n - 1) + fibonacci(n - 2)\<newline>'' @
     ''\<newline>'' @
     ''print(f'' @ dq @ ''Fibonacci(10): {fibonacci(10)}'' @ dq @ '')''"

definition template_cpp :: string where
  "template_cpp =
     ''// Welcome to CodeCollab - C++ Session\<newline>'' @
     ''// Start coding together in real-time!\<newline>'' @
     ''\<newline>'' @
     ''#include <iostream>\<newline>'' @
     ''using namespace std;\<newline>'' @
     ''\<newline>'' @
     ''int fibonacci(int n) {\<newline>'' @
     ''    if (n <= 1) return n;\<newline>'' @
     ''    return fibonacci(n - 1) + fibonacci(n - 2);\<newline>'' @
     ''}\<newline>'' @
     ''\<newline>'' @
     ''int main() {\<newline>'' @
     ''    cout << '' @ dq @ ''Hello, World!'' @ dq @ '' << endl;\<newline>'' @
     ''    cout << '' @ dq @ ''Fibonacci(10): '' @ dq @ '' << fibonacci(10) << endl;\<newline>'' @
     ''    return 0;\<newline>'' @
     ''}''"

definition template_c :: string where
  "template_c =
     ''// Welcome to CodeCollab - C Session\<newline>'' @
     ''// Start coding together in real-time!\<newline>'' @
     ''\<newline>'' @
     ''#include <stdio.h>\<newline>'' @
     ''\<newline>'' @
     ''int fibonacci(int n) {\<newline>'' @
     ''    if (n <= 1) return n;\<newline>'' @
     ''    return fibonacci(n - 1) + fibonacci(n - 2);\<newline>'' @
     ''}\<newline>'' @
     ''\<newline>'' @
     ''int main() {\<newline>'' @
     ''    printf('' @ dq @ ''Hello, World!'' @ backslash @ ''n'' @ dq @ '');\<newline>'' @
     ''    printf('' @ dq @ ''Fibonacci(10): %d'' @ backslash @ ''n'' @ dq @ '', fibonacci(10));\<newline>'' @
     ''    return 0;\<newline>'' @
     ''}''"

definition template_java :: string where
  "template_java =
     ''// Welcome to CodeCollab - Java Session\<newline>'' @
     ''// Start coding together in real-time!\<newline>'' @
     ''\<newline>'' @
     ''public class Main {\<newline>'' @
     ''    public static int fibonacci(int n) {\<newline>'' @
     ''        if (n <= 1) return n;\<newline>'' @
     ''        return fibonacci(n - 1) + fibonacci(n - 2);\<newline>'' @
     ''    }\<newline>'' @
     ''    \<newline>'' @
     ''    public static void main(String[] args) {\<newline>'' @
     ''        System.out.println('' @ dq @ ''Hello, World!'' @ dq @ '');\<newline>'' @
     ''        System.out.println('' @ dq @ ''Fibonacci(10): '' @ dq @ '' + fibonacci(10));\<newline>'' @
     ''    }\<newline>'' @
     ''}''"

definition template_go :: string where
  "template_go =
     ''// Welcome to CodeCollab - Go Session\<newline>'' @
     ''// Start coding together in real-time!\<newline>'' @
     ''\<newline>'' @
     ''package main\<newline>'' @
     ''\<newline>'' @
     ''import '' @ dq @ ''fmt'' @ dq @ ''\<newline>'' @
     ''\<newline>'' @
     ''func fibonacci(n int) int {\<newline>'' @
     ''    if n <= 1 {\<newline>'' @
     ''        return n\<newline>'' @
     ''    }\<newline>'' @
     ''    return fibonacci(n-1) + fibonacci(n-2)\<newline>'' @
     ''}\<newline>'' @
     ''\<newline>'' @
     ''func main() {\<newline>'' @
     ''    fmt.Println('' @ dq @ ''Hello, World!'' @ dq @ '')\<newline>'' @
     ''    fmt.Printf('' @ dq @ ''Fibonacci(10): %d'' @ backslash @ ''n'' @ dq @ '', fibonacci(10))\<newline>'' @
     ''}''"

definition template_rust :: string where
  "template_rust =
     ''// Welcome to CodeCollab - Rust Session\<newline>'' @
     ''// Start coding together in real-time!\<newline>'' @
     ''\<newline>'' @
     ''fn fibonacci(n: u32) -> u32 {\<newline>'' @
     ''    match n {\<newline>'' @
     ''        0 | 1 => n,\<newline>'' @
     ''        _ => fibonacci(n - 1) + fibonacci(n - 2),\<newline>'' @
     ''    }\<newline>'' @
     ''}\<newline>'' @
     ''\<newline>'' @
     ''fn main() {\<newline>'' @
     ''    println!('' @ dq @ ''Hello, World!'' @ dq @ '');\<newline>'' @
     ''    println!('' @ dq @ ''Fibonacci(10): {}'' @ dq @ '', fibonacci(10));\<newline>'' @
     ''}''"

text \<open>
  \<open>templates[lang] || templates.javascript\<close>, for the language names a session can
  have: a name that is no key of the table gives the JavaScript template.
\<close>

definition getLanguageTemplate :: "string \<Rightarrow> string" where
  "getLanguageTemplate lang =
     (if lang = ''javascript'' then template_javascript
      else if lang = ''python'' then template_python
      else if lang = ''cpp'' then template_cpp
      else if lang = ''c'' then template_c
      else if lang = ''java'' then template_java
      else if lang = ''go'' then template_go
      else if lang = ''rust'' then template_rust
      else template_javascript)"

subsection \<open>The component\<close>

text \<open>
  \<open>language\<close> is the component's property of that name. \<open>editorRef\<close> is \<open>None\<close> until
  the Monaco editor has mounted and then holds the editor's text; \<open>isEditorReady\<close> and
  \<open>code\<close> are the component's React state. \<open>rendered\<close> is the value of \<open>code\<close> in
  the last render whose effects have run: an effect that depends on \<open>code\<close> runs again
  when \<open>code\<close> differs from it. \<open>debounced\<close> is the code held by the 300 ms timer of
  \<open>useCodeEditorSocket.sendCodeChange\<close>, \<open>handed_over\<close> what the timer has passed to
  \<open>socket.sendCodeChange\<close>, \<open>notified\<close> the calls of the parent's \<open>onCodeChange\<close>.

  The arguments \<open>readOnly\<close>, \<open>isConn\<close> and \<open>sid_set\<close> of the functions below are the
  component's \<open>readOnly\<close> property, the hook's \<open>isConnected\<close> and \<open>sessionId\<close> being
  set, as the content listener sees them: the listener is attached once, when the
  editor mounts, and keeps the values of that render.
\<close>

record editor =
  language :: string
  isEditorReady :: bool
  editorRef :: "string option"
  code :: string
  rendered :: string
  ed_isTyping :: bool
  suppressNextChangeRef :: bool
  debounced :: "string option"
  handed_over :: "string list"
  notified :: "string list"

definition CodeEditor_initial :: editor where
  "CodeEditor_initial =
     \<lparr> language = ''javascript'', isEditorReady = False, editorRef = None, code = [],
       rendered = [], ed_isTyping = False, suppressNextChangeRef = False,
       debounced = None, handed_over = [], notified = [] \<rparr>"

text \<open>The listener of \<open>editor.onDidChangeModelContent\<close> (lines 125 to 154).\<close>

definition contentChanged :: "bool \<Rightarrow> bool \<Rightarrow> bool \<Rightarrow> editor \<Rightarrow> editor" where
  "contentChanged readOnly isConn sid_set ed =
     (if suppressNextChangeRef ed then ed
      else case editorRef ed of
        None \<Rightarrow> ed
      | Some newCode \<Rightarrow>
          let ed1 = ed\<lparr> code := newCode, ed_isTyping := True \<rparr>;
              ed2 = (if \<not> readOnly \<and> isConn
                     then (if \<not> isConn \<or> \<not> sid_set then ed1
                           else ed1\<lparr> debounced := Some newCode \<rparr>)
                     else ed1)
          in ed2\<lparr> notified := notified ed2 @ [newCode] \<rparr>)"

text \<open>\<open>editor.setValue(text)\<close>: the text is replaced and the content listener runs.\<close>

definition setValue :: "bool \<Rightarrow> bool \<Rightarrow> bool \<Rightarrow> string \<Rightarrow> editor \<Rightarrow> editor" where
  "setValue readOnly isConn sid_set text ed =
     (case editorRef ed of
        None \<Rightarrow> ed
      | Some _ \<Rightarrow> contentChanged readOnly isConn sid_set (ed\<lparr> editorRef := Some text \<rparr>))"

subsection \<open>What a render does after the state has changed\<close>

text \<open>
  The \<open>Editor\<close> element gets \<open>code\<close> as its \<open>value\<close> property. It is code of the
  package @monaco-editor/react: when the property has changed, it calls
  \<open>editor.setValue(value)\<close> if the editor is read-only, and otherwise replaces the
  editor's text by the value if the two differ. Both run the content listener.
\<close>

definition value_effect :: "bool \<Rightarrow> bool \<Rightarrow> bool \<Rightarrow> editor \<Rightarrow> editor" where
  "value_effect readOnly isConn sid_set ed =
     (case editorRef ed of
        None \<Rightarrow> ed
      | Some text \<Rightarrow>
          if readOnly then setValue readOnly isConn sid_set (rendered ed) ed
          else if rendered ed \<noteq> text then setValue readOnly isConn sid_set (rendered ed) ed
          else ed)"

text \<open>
  The effect of lines 59 to 67: when the editor is ready and \<open>code\<close> is empty, the
  language template is put into \<open>code\<close> and into the editor.
\<close>

definition template_effect :: "bool \<Rightarrow> bool \<Rightarrow> bool \<Rightarrow> editor \<Rightarrow> editor" where
  "template_effect readOnly isConn sid_set ed =
     (if isEditorReady ed \<and> rendered ed = []
      then
        let template = getLanguageTemplate (language ed);
            ed1 = ed\<lparr> code := template \<rparr>
        in case editorRef ed1 of
             None \<Rightarrow> ed1
           | Some _ \<Rightarrow> setValue readOnly isConn sid_set template ed1
      else ed)"

text \<open>
  One render after \<open>code\<close> has changed: the effects that depend on \<open>code\<close> run, the
  element's before the component's, both seeing the \<open>code\<close> of this render. When
  \<open>code\<close> is what the last render saw, none of them runs.
\<close>

definition commit :: "bool \<Rightarrow> bool \<Rightarrow> bool \<Rightarrow> editor \<Rightarrow> editor" where
  "commit readOnly isConn sid_set ed =
     (if code ed = rendered ed then ed
      else template_effect readOnly isConn sid_set
             (value_effect readOnly isConn sid_set (ed\<lparr> rendered := code ed \<rparr>)))"

text \<open>
  React renders until the state is stable. Two renders are enough: the first may put
  the template into an empty \<open>code\<close>, the second sees the template, and a third would
  change nothing (lemma \<open>commit_settle\<close> below).
\<close>

definition settle :: "bool \<Rightarrow> bool \<Rightarrow> bool \<Rightarrow> editor \<Rightarrow> editor" where
  "settle readOnly isConn sid_set ed =
     commit readOnly isConn sid_set (commit readOnly isConn sid_set ed)"

subsection \<open>Mounting, typing, timers\<close>

text \<open>
  \<open>handleEditorDidMount\<close>: the editor, which the \<open>Editor\<close> element created with the
  text of \<open>code\<close>, is stored and \<open>isEditorReady\<close> is set; the content listener is
  attached; then the editor is filled with the language template, which runs that
  listener. \<open>mount\<close> is the handler followed by the renders it causes.
\<close>

definition handleEditorDidMount :: "bool \<Rightarrow> bool \<Rightarrow> bool \<Rightarrow> editor \<Rightarrow> editor" where
  "handleEditorDidMount readOnly isConn sid_set ed =
     (let template = getLanguageTemplate (language ed);
          ed1 = ed\<lparr> editorRef := Some (code ed), isEditorReady := True \<rparr>;
          ed2 = setValue readOnly isConn sid_set template ed1
      in ed2\<lparr> code := template \<rparr>)"

definition mount :: "bool \<Rightarrow> bool \<Rightarrow> bool \<Rightarrow> editor \<Rightarrow> editor" where
  "mount readOnly isConn sid_set ed =
     settle readOnly isConn sid_set (handleEditorDidMount readOnly isConn sid_set ed)"

text \<open>
  The user types: the editor's text becomes \<open>text\<close>, the content listener runs, and the
  component renders.
\<close>

definition user_edit :: "bool \<Rightarrow> bool \<Rightarrow> bool \<Rightarrow> string \<Rightarrow> editor \<Rightarrow> editor" where
  "user_edit readOnly isConn sid_set text ed =
     settle readOnly isConn sid_set (setValue readOnly isConn sid_set text ed)"

text \<open>The debounce timer fires: the held code goes to \<open>socket.sendCodeChange\<close>.\<close>

definition debounce_fired :: "editor \<Rightarrow> editor" where
  "debounce_fired ed =
     (case debounced ed of
        None \<Rightarrow> ed
      | Some c \<Rightarrow> ed\<lparr> debounced := None, handed_over := handed_over ed @ [c] \<rparr>)"

text \<open>The one-second timer of the content listener fires.\<close>

definition editor_typing_timeout :: "editor \<Rightarrow> editor" where
  "editor_typing_timeout ed = ed\<lparr> ed_isTyping := False \<rparr>"

subsection \<open>Inbound events\<close>

text \<open>The callback the component gives to \<open>useCodeEditorSocket\<close> (lines 34 to 41).\<close>

definition onCodeChange ::
  "bool \<Rightarrow> bool \<Rightarrow> bool \<Rightarrow> string \<Rightarrow> string \<Rightarrow> string option \<Rightarrow> editor \<Rightarrow> editor" where
  "onCodeChange readOnly isConn sid_set newCode operation from ed =
     (if from \<noteq> Some ''self'' \<and> editorRef ed \<noteq> None \<and> \<not> suppressNextChangeRef ed
      then
        let ed1 = ed\<lparr> suppressNextChangeRef := True \<rparr>;
            ed2 = setValue readOnly isConn sid_set newCode ed1;
            ed3 = ed2\<lparr> code := newCode \<rparr>
        in ed3\<lparr> suppressNextChangeRef := False \<rparr>
      else ed)"

text \<open>
  The two listeners of \<open>useCodeEditorSocket\<close>, which call that callback. When the
  callback has changed the component's state, the component renders; when it has
  changed nothing, nothing follows.
\<close>

definition editor_code_change ::
  "bool \<Rightarrow> bool \<Rightarrow> bool \<Rightarrow> string \<Rightarrow> string \<Rightarrow> string option \<Rightarrow> editor \<Rightarrow> editor" where
  "editor_code_change readOnly isConn sid_set c operation from ed =
     (let ed' = onCodeChange readOnly isConn sid_set c operation from ed
      in if ed' = ed then ed else settle readOnly isConn sid_set ed')"

definition editor_code_sync :: "bool \<Rightarrow> bool \<Rightarrow> bool \<Rightarrow> string \<Rightarrow> editor \<Rightarrow> editor" where
  "editor_code_sync readOnly isConn sid_set c ed =
     (let ed' = onCodeChange readOnly isConn sid_set c ''sync'' (Some ''server'') ed
      in if ed' = ed then ed else settle readOnly isConn sid_set ed')"

subsection \<open>Runs of the mounted editor\<close>

text \<open>What can happen to the editor once it has mounted, and a sequence of such steps.\<close>

datatype editor_action =
    UserEdit string
  | CodeChangeEvent string string "string option"
  | CodeSyncEvent string
  | TypingTimer
  | DebounceTimer

fun editor_step :: "bool \<Rightarrow> bool \<Rightarrow> bool \<Rightarrow> editor_action \<Rightarrow> editor \<Rightarrow> editor" where
  "editor_step ro ic ss (UserEdit t) e = user_edit ro ic ss t e"
| "editor_step ro ic ss (CodeChangeEvent c operation from) e =
     editor_code_change ro ic ss c operation from e"
| "editor_step ro ic ss (CodeSyncEvent c) e = editor_code_sync ro ic ss c e"
| "editor_step ro ic ss TypingTimer e = editor_typing_timeout e"
| "editor_step ro ic ss DebounceTimer e = debounce_fired e"

fun editor_steps :: "bool \<Rightarrow> bool \<Rightarrow> bool \<Rightarrow> editor_action list \<Rightarrow> editor \<Rightarrow> editor" where
  "editor_steps ro ic ss [] e = e"
| "editor_steps ro ic ss (a # acts) e = editor_steps ro ic ss acts (editor_step ro ic ss a e)"

section \<open>ChatWindow (src/components/Session/ChatWindow.js)\<close>

text \<open>
  \<open>typingTimeoutRef\<close> says whether the three-second timer is pending. \<open>cw_typingUsers\<close>
  is the component's own \<open>typingUsers\<close> state, which nothing in the component sets.
  \<open>sent\<close> are the calls of \<open>onSendMessage\<close>.
\<close>

record chat_window =
  newMessage :: string
  cw_isTyping :: bool
  cw_typingUsers :: "string list"
  messageHistory :: "chat_message list"
  isScrolledUp :: bool
  unreadCount :: nat
  typingTimeoutRef :: bool
  sent :: "string list"

definition ChatWindow_initial :: chat_window where
  "ChatWindow_initial =
     \<lparr> newMessage = [], cw_isTyping = False, cw_typingUsers = [], messageHistory = [],
       isScrolledUp = False, unreadCount = 0, typingTimeoutRef = False, sent = [] \<rparr>"

text \<open>
  The effect of lines 57 to 78, run with the \<open>messages\<close> property of one render: the
  messages whose id is not in the history yet are appended to it.
\<close>

definition update_history :: "chat_message list \<Rightarrow> chat_window \<Rightarrow> chat_window" where
  "update_history messages cw =
     (if length messages > 0
      then
        let newMessages =
              filter (\<lambda>msg. \<not> list_ex (\<lambda>existing. msg_id existing = msg_id msg) (messageHistory cw))
                messages
        in if length newMessages > 0
           then cw\<lparr> messageHistory := messageHistory cw @ newMessages,
                    unreadCount := (if isScrolledUp cw then unreadCount cw + length newMessages
                                    else unreadCount cw) \<rparr>
           else cw
      else cw)"

text \<open>
  What the component renders: history and property together, sorted by timestamp
  (\<open>Array.prototype.sort\<close> is stable, as \<open>sort_key\<close> is).
\<close>

definition allMessages :: "chat_message list \<Rightarrow> chat_window \<Rightarrow> chat_message list" where
  "allMessages messages cw = sort_key timestamp (messageHistory cw @ messages)"

text \<open>
  \<open>String.prototype.trim\<close> on ASCII text: space, tab, line feed, vertical tab, form
  feed and carriage return are stripped. The white space beyond ASCII, which \<open>trim\<close>
  strips as well, is not covered.
\<close>

definition is_space :: "char \<Rightarrow> bool" where
  "is_space c =
     (c = CHR '' '' \<or> c = CHR 0x09 \<or> c = CHR 0x0A \<or> c = CHR 0x0B \<or> c = CHR 0x0C \<or>
      c = CHR 0x0D)"

definition trim :: "string \<Rightarrow> string" where
  "trim t = rev (dropWhile is_space (rev (dropWhile is_space t)))"

text \<open>
  The effect of lines 81 to 97 runs when \<open>isTyping\<close> changes: its cleanup clears the
  pending timer, and a new one is started when \<open>isTyping\<close> is true.
\<close>

definition typing_effect :: "chat_window \<Rightarrow> chat_window" where
  "typing_effect cw = cw\<lparr> typingTimeoutRef := cw_isTyping cw \<rparr>"

definition setIsTyping :: "bool \<Rightarrow> chat_window \<Rightarrow> chat_window" where
  "setIsTyping b cw =
     (if cw_isTyping cw = b then cw else typing_effect (cw\<lparr> cw_isTyping := b \<rparr>))"

definition handleInputChange :: "string \<Rightarrow> chat_window \<Rightarrow> chat_window" where
  "handleInputChange v cw =
     (let cw1 = cw\<lparr> newMessage := v \<rparr>
      in if \<not> cw_isTyping cw \<and> trim v \<noteq> [] then setIsTyping True cw1 else cw1)"

definition handleSubmit :: "bool \<Rightarrow> chat_window \<Rightarrow> chat_window" where
  "handleSubmit isConn cw =
     (if trim (newMessage cw) = [] \<or> \<not> isConn then cw
      else setIsTyping False
             (cw\<lparr> sent := sent cw @ [trim (newMessage cw)], newMessage := [] \<rparr>))"

text \<open>The three-second timer fires, if it is pending.\<close>

definition typing_timeout :: "chat_window \<Rightarrow> chat_window" where
  "typing_timeout cw = (if typingTimeoutRef cw then setIsTyping False cw else cw)"

section \<open>The session page: events and timers together\<close>

text \<open>
  The page holds the session state, the chat window and the editor. An inbound event
  reaches the session listener and, for \<open>code-change\<close> and \<open>code-sync\<close>, the editor's
  listener; after it the chat window's history effect runs on the new \<open>chatMessages\<close>.
  The other steps are what the user does and the timers of the page firing. Time that
  passes shows in the model only as timers firing.
\<close>

record ('r, 'e) page =
  session :: "('r, 'e) session_state"
  chat :: chat_window
  ed :: editor

datatype ('r, 'e) page_action =
    Inbound "('r, 'e) inbound"
  | ChatInput string
  | ChatSubmit
  | ChatTypingTimeout
  | EditorEdit string
  | EditorTypingTimeout
  | DebounceTimeout

fun editor_inbound :: "bool \<Rightarrow> bool \<Rightarrow> bool \<Rightarrow> ('r, 'e) inbound \<Rightarrow> editor \<Rightarrow> editor" where
  "editor_inbound ro ic ss (CodeChange c operation from) e = editor_code_change ro ic ss c operation from e"
| "editor_inbound ro ic ss (CodeSync c) e = editor_code_sync ro ic ss c e"
| "editor_inbound ro ic ss _ e = e"

fun page_step :: "bool \<Rightarrow> bool \<Rightarrow> bool \<Rightarrow> ('r, 'e) page_action \<Rightarrow> ('r, 'e) page \<Rightarrow> ('r, 'e) page" where
  "page_step ro ic ss (Inbound ev) pg =
     (let s' = session_event ev (session pg)
      in pg\<lparr> session := s', chat := update_history (chatMessages s') (chat pg),
             ed := editor_inbound ro ic ss ev (ed pg) \<rparr>)"
| "page_step ro ic ss (ChatInput v) pg = pg\<lparr> chat := handleInputChange v (chat pg) \<rparr>"
| "page_step ro ic ss ChatSubmit pg = pg\<lparr> chat := handleSubmit ic (chat pg) \<rparr>"
| "page_step ro ic ss ChatTypingTimeout pg = pg\<lparr> chat := typing_timeout (chat pg) \<rparr>"
| "page_step ro ic ss (EditorEdit t) pg = pg\<lparr> ed := user_edit ro ic ss t (ed pg) \<rparr>"
| "page_step ro ic ss EditorTypingTimeout pg = pg\<lparr> ed := editor_typing_timeout (ed pg) \<rparr>"
| "page_step ro ic ss DebounceTimeout pg = pg\<lparr> ed := debounce_fired (ed pg) \<rparr>"

fun page_steps :: "bool \<Rightarrow> bool \<Rightarrow> bool \<Rightarrow> ('r, 'e) page_action list \<Rightarrow> ('r, 'e) page \<Rightarrow> ('r, 'e) page" where
  "page_steps ro ic ss [] pg = pg"
| "page_steps ro ic ss (st # sts) pg = page_steps ro ic ss sts (page_step ro ic ss st pg)"

definition page_initial :: "('r, 'e) page" where
  "page_initial =
     \<lparr> session = useSessionSocket_initial, chat = ChatWindow_initial, ed = CodeEditor_initial \<rparr>"


section \<open>Notions used in the statements\<close>

text \<open>The callbacks registered for an event, in the order \<open>emit\<close> calls them.\<close>

definition listeners_of :: "'cb socket_service \<Rightarrow> event_name \<Rightarrow> 'cb list" where
  "listeners_of st e = (case eventListeners st e of None \<Rightarrow> [] | Some cbs \<Rightarrow> cbs)"



text \<open>
  The socket.io client changes the socket's \<open>connected\<close> flag when the transport comes
  up or goes down.
\<close>

definition transport :: "bool \<Rightarrow> 'cb socket_service \<Rightarrow> 'cb socket_service" where
  "transport up st =
     (case socket st of
        None \<Rightarrow> st
      | Some s \<Rightarrow> st\<lparr> socket := Some (s\<lparr> connected := up \<rparr>) \<rparr>)"

text \<open>
  The hook's listeners are registered, as \<open>connectSocket\<close> leaves them: for each
  custom event the service emits, the registry holds the hook's listener for it and no
  other, and none for \<open>custom:reconnect_failed\<close> and \<open>custom:error\<close>, which the hook
  does not listen to.
\<close>

definition hooked :: "conn_cb socket_service \<Rightarrow> bool" where
  "hooked st =
     (listeners_of st ''custom:connected'' = [OnConnected] \<and>
      listeners_of st ''custom:disconnected'' = [OnDisconnected] \<and>
      listeners_of st ''custom:reconnected'' = [OnReconnected] \<and>
      listeners_of st ''custom:connect_error'' = [OnConnectError] \<and>
      listeners_of st ''custom:auth-success'' = [OnAuthSuccess] \<and>
      listeners_of st ''custom:auth-error'' = [OnAuthError] \<and>
      listeners_of st ''custom:reconnect_failed'' = [] \<and>
      listeners_of st ''custom:error'' = [])"

text \<open>A signed-in user, and the client right after \<open>connectSocket\<close>.\<close>

definition alice :: user where
  "alice = \<lparr> user_id = ''u1'', username = ''alice'', profile = ''{}'' \<rparr>"

definition started :: "conn_cb socket_service \<times> ui" where
  "started = connectSocket (Some alice) (constructor, useSocket_initial)"

text \<open>A service whose socket is connected.\<close>

definition online :: "conn_cb socket_service" where
  "online = transport True (connect constructor)"

text \<open>
  A callback behaviour for examples: every callback counts its call in the state, and
  callback 1 then throws.
\<close>

definition faulty :: "nat \<Rightarrow> event_data \<Rightarrow> nat \<Rightarrow> nat \<times> string option" where
  "faulty cb d w = (Suc w, if cb = 1 then Some ''boom'' else None)"

definition fresh :: "nat socket_service" where
  "fresh = connect constructor"

text \<open>
  A mounted editor between two events: the editor and \<open>code\<close> hold the same text,
  which is not empty, the effects have run on it, and the flag is down.
\<close>

definition at_rest :: "editor \<Rightarrow> bool" where
  "at_rest e =
     (isEditorReady e \<and> editorRef e = Some (code e) \<and> rendered e = code e \<and> code e \<noteq> [] \<and>
      \<not> suppressNextChangeRef e)"

text \<open>
  A writable JavaScript editor that has mounted while the hook was not connected.
\<close>

definition mounted :: editor where
  "mounted = mount False False True CodeEditor_initial"

text \<open>Two participants with different connection ids.\<close>

definition bob :: participant where
  "bob = \<lparr> socketId = ''s1'', p_username = ''bob'' \<rparr>"

definition carol :: participant where
  "carol = \<lparr> socketId = ''s2'', p_username = ''carol'' \<rparr>"

text \<open>Four chat messages with the ids 1, 2, 2, 3, in the order they arrive.\<close>

definition chat_1223 :: "chat_message list" where
  "chat_1223 =
     [\<lparr> msg_id = 1, msg_username = ''alice'', content = ''a'', timestamp = 10 \<rparr>,
      \<lparr> msg_id = 2, msg_username = ''bob'', content = ''b'', timestamp = 20 \<rparr>,
      \<lparr> msg_id = 2, msg_username = ''bob'', content = ''b'', timestamp = 20 \<rparr>,
      \<lparr> msg_id = 3, msg_username = ''carol'', content = ''c'', timestamp = 30 \<rparr>]"

section \<open>Outbound operations on the wire\<close>

lemma emitted_append: "emitted (xs @ ys) = emitted xs @ emitted ys"
  by (induction xs rule: emitted.induct) simp_all

lemma wire_socket_emit:
  "socket st \<noteq> None \<Longrightarrow> wire (socket_emit name p st) = wire st @ [(name, p)]"
  by (cases "socket st") (simp_all add: wire_def socket_emit_def socket_call_def emitted_append)

lemma socket_connected_socket_emit:
  "socket_connected (socket_emit name p st) = socket_connected st"
  by (simp add: socket_connected_def socket_emit_def socket_call_def split: option.splits)

lemma socket_connected_has_socket: "socket_connected st \<Longrightarrow> socket st \<noteq> None"
  by (cases "socket st") (simp_all add: socket_connected_def)

lemma socket_connected_online: "socket_connected online"
  by (simp add: online_def transport_def connect_def constructor_def socket_connected_def)

lemma wire_online: "wire online = []"
  by (simp add: online_def transport_def connect_def constructor_def socket_connected_def wire_def)

lemma fresh_not_connected: "\<not> socket_connected fresh"
  by (simp add: fresh_def socket_connected_def connect_def constructor_def)

lemma wire_fresh: "wire fresh = []"
  by (simp add: fresh_def wire_def socket_connected_def connect_def constructor_def)

text \<open>
  C10. When the socket is not connected (or there is no socket), each of
  \<open>leaveSession\<close>, \<open>sendCodeChange\<close>, \<open>sendCursorPosition\<close>, \<open>executeCode\<close> and
  \<open>sendChatMessage\<close> returns the service as it was: nothing is put on the wire, nothing
  is queued, no field changes.
\<close>

theorem outbound_dropped_when_not_connected:
  "\<not> socket_connected st \<Longrightarrow>
     leaveSession sid st = st \<and>
     sendCodeChange now sid c operation st = st \<and>
     sendCursorPosition now sid pos st = st \<and>
     executeCode now sid c lang inp st = st \<and>
     sendChatMessage now sid m st = st"
  by (simp add: leaveSession_def sendCodeChange_def sendCursorPosition_def executeCode_def
      sendChatMessage_def)

theorem outbound_dropped_when_not_connected_witness:
  "\<not> socket_connected fresh \<and>
   wire fresh = [] \<and>
   leaveSession ''ABCDEF'' fresh = fresh \<and>
   sendCodeChange 7 ''ABCDEF'' ''y=3'' ''edit'' fresh = fresh \<and>
   sendCursorPosition 7 ''ABCDEF'' \<lparr> line = 1, column = 2 \<rparr> fresh = fresh \<and>
   executeCode 7 ''ABCDEF'' ''y=3'' ''python'' [] fresh = fresh \<and>
   sendChatMessage 7 ''ABCDEF'' ''hi'' fresh = fresh"
  using outbound_dropped_when_not_connected [OF fresh_not_connected] fresh_not_connected wire_fresh
  by simp

text \<open>
  C8, as the code has it. \<open>leaveSession\<close> keeps no record of having left: each call on a
  connected socket emits one \<open>leave-session\<close> message, so two calls in succession emit
  two; on a socket that is not connected neither call emits anything. The same holds
  through the hook's \<open>leaveSession\<close>, which only looks at whether it holds a socket.
\<close>

theorem leaveSession_twice:
  "wire (leaveSession sid (leaveSession sid st)) =
     (if socket_connected st
      then wire st @ [(''leave-session'', LeaveSessionP sid), (''leave-session'', LeaveSessionP sid)]
      else wire st) \<and>
   wire (hook_leaveSession socketRef sid (hook_leaveSession socketRef sid st)) =
     (if socketRef \<and> socket_connected st
      then wire st @ [(''leave-session'', LeaveSessionP sid), (''leave-session'', LeaveSessionP sid)]
      else wire st)"
  by (simp add: hook_leaveSession_def leaveSession_def socket_connected_socket_emit
      wire_socket_emit socket_connected_has_socket)

text \<open>
  C8 as stated fails: two calls for the session \<open>ABCDEF\<close> on a connected socket put two
  \<open>leave-session\<close> messages on the wire.
\<close>

theorem leaveSession_twice_counterexample:
  "wire (leaveSession ''ABCDEF'' (leaveSession ''ABCDEF'' online)) =
     [(''leave-session'', LeaveSessionP ''ABCDEF''), (''leave-session'', LeaveSessionP ''ABCDEF'')]"
  by (simp add: leaveSession_def socket_connected_socket_emit wire_socket_emit
      socket_connected_has_socket socket_connected_online wire_online)

section \<open>The listener registry\<close>

lemma socket_on: "socket st \<noteq> None \<Longrightarrow> socket (on e cb st) \<noteq> None"
  by (auto simp: on_def socket_call_def Let_def split: option.splits)

lemma socket_off: "socket st \<noteq> None \<Longrightarrow> socket (off e cb st) \<noteq> None"
  by (auto simp: off_def socket_call_def Let_def split: option.splits)







lemma socket_apply_calls: "socket st \<noteq> None \<Longrightarrow> socket (apply_calls cs st) \<noteq> None"
proof (induction cs arbitrary: st)
  case Nil
  then show ?case by simp
next
  case (Cons c cs)
  from Cons.prems have "socket (apply_call c st) \<noteq> None"
    by (cases c) (simp_all only: apply_call.simps socket_on socket_off not_False_eq_True)
  from Cons.IH [OF this] show ?case by simp
qed











text \<open>What \<open>on\<close> and \<open>off\<close> do to the socket's own listeners.\<close>

lemma socket_listeners_socket_call:
  "socket st \<noteq> None \<Longrightarrow>
     socket_listeners (socket_call c st) e = listener_step e c (socket_listeners st e)"
  by (cases "socket st") (simp_all add: socket_listeners_def socket_call_def)












text \<open>
  The same delivery, evaluated: callback 1 throws, callback 2 is still called, and the
  error is logged.
\<close>

lemma faulty_delivery:
  "invoked (emit faulty ''e'' NoData (apply_calls [On ''e'' 1, On ''e'' 1, On ''e'' 2, On ''f'' 3, On ''e'' 4, Off ''e'' 4] fresh) 0) = [1, 2]
 \<and> logged (emit faulty ''e'' NoData (apply_calls [On ''e'' 1, On ''e'' 1, On ''e'' 2, On ''f'' 3, On ''e'' 4, Off ''e'' 4] fresh) 0) = [(''e'', ''boom'')]
 \<and> world (emit faulty ''e'' NoData (apply_calls [On ''e'' 1, On ''e'' 1, On ''e'' 2, On ''f'' 3, On ''e'' 4, Off ''e'' 4] fresh) 0) = 2"
  by (simp add: emit_def on_def off_def socket_call_def fresh_def connect_def constructor_def
      socket_connected_def set_add_def set_delete_def faulty_def Let_def)

section \<open>The connection status\<close>

text \<open>What \<open>setupConnectionListeners\<close> leaves in the registry.\<close>

lemma registry_after_setup:
  "eventListeners (setupConnectionListeners (connect constructor)) =
     [''custom:connected'' \<mapsto> [OnConnected], ''custom:disconnected'' \<mapsto> [OnDisconnected],
      ''custom:reconnected'' \<mapsto> [OnReconnected], ''custom:connect_error'' \<mapsto> [OnConnectError],
      ''custom:auth-success'' \<mapsto> [OnAuthSuccess], ''custom:auth-error'' \<mapsto> [OnAuthError]]"
  by (simp add: setupConnectionListeners_def on_def socket_call_def connect_def constructor_def
      socket_connected_def set_add_def Let_def)

lemma emit_listeners_of:
  "emit run e d st w =
     forEach_callback run e d (listeners_of st e) \<lparr> invoked = [], logged = [], world = w \<rparr>"
  by (simp add: emit_def listeners_of_def split: option.splits)

lemma listeners_of_socket_call: "listeners_of (socket_call c st) e = listeners_of st e"
  by (simp add: listeners_of_def socket_call_def split: option.splits)

lemma listeners_of_authenticate: "listeners_of (authenticate u st) e = listeners_of st e"
  by (simp add: authenticate_def socket_emit_def listeners_of_socket_call)

lemma hooked_started: "hooked (fst started)"
  by (simp add: started_def connectSocket_def useSocket_initial_def hooked_def Let_def alice_def
      listeners_of_def registry_after_setup)

text \<open>The handlers of the service, run with the hook's listeners registered.\<close>

lemma handle_connect_error_hooked:
  assumes "hooked st"
  shows "handle_connect_error run_conn_cb err (st, w) =
           (st\<lparr> reconnectAttempts := reconnectAttempts st + 1 \<rparr>,
            (if maxReconnectAttempts st \<le> reconnectAttempts st + 1
             then toast_error ''Unable to connect to server. Please refresh the page.'' w
             else w)\<lparr> connectionStatus := Error \<rparr>)"
proof -
  from assms have "listeners_of st ''custom:connect_error'' = [OnConnectError]"
    by (simp add: hooked_def)
  then have "listeners_of (st\<lparr> reconnectAttempts := reconnectAttempts st + 1 \<rparr>)
      ''custom:connect_error'' = [OnConnectError]"
    by (simp add: listeners_of_def)
  then show ?thesis
    by (simp add: handle_connect_error_def emit_listeners_of Let_def)
qed

lemma handle_connect_hooked:
  assumes "hooked st"
  shows "connectionStatus (snd (handle_connect run_conn_cb u (st, w))) = Connected \<and>
         reconnectAttempts (fst (handle_connect run_conn_cb u (st, w))) = 0"
proof -
  let ?st1 = "st\<lparr> isConnected := True, reconnectAttempts := 0 \<rparr>"
  let ?st2 = "case u of None \<Rightarrow> ?st1 | Some usr \<Rightarrow> authenticate usr ?st1"
  from assms have "listeners_of ?st1 ''custom:connected'' = [OnConnected]"
    by (simp add: hooked_def listeners_of_def)
  then have l: "listeners_of ?st2 ''custom:connected'' = [OnConnected]"
    by (cases u) (simp_all add: listeners_of_authenticate)
  have r: "reconnectAttempts ?st2 = 0"
    by (cases u) (simp_all add: authenticate_def socket_emit_def socket_call_def split: option.splits)
  from l r show ?thesis
    by (simp add: handle_connect_def emit_listeners_of Let_def)
qed

lemma hooked_reconnectAttempts: "hooked (st\<lparr> reconnectAttempts := n \<rparr>) = hooked st"
  by (simp add: hooked_def listeners_of_def)

lemma deliver_all_append:
  "deliver_all run u (xs @ ys) s = deliver_all run u ys (deliver_all run u xs s)"
  by (induction xs arbitrary: s) simp_all

text \<open>Any number of \<open>connect_error\<close> events in a row.\<close>

lemma connect_errors_hooked:
  assumes "hooked st"
  shows "hooked (fst (deliver_all run_conn_cb u (replicate n (ConnectError err)) (st, w))) \<and>
         reconnectAttempts (fst (deliver_all run_conn_cb u (replicate n (ConnectError err)) (st, w)))
           = reconnectAttempts st + n \<and>
         socket (fst (deliver_all run_conn_cb u (replicate n (ConnectError err)) (st, w))) = socket st \<and>
         (0 < n \<longrightarrow>
            connectionStatus (snd (deliver_all run_conn_cb u (replicate n (ConnectError err)) (st, w)))
              = Error)"
  using assms
proof (induction n arbitrary: st w)
  case 0
  then show ?case by simp
next
  case (Suc n)
  let ?st1 = "st\<lparr> reconnectAttempts := reconnectAttempts st + 1 \<rparr>"
  let ?w1 = "(if maxReconnectAttempts st \<le> reconnectAttempts st + 1
             then toast_error ''Unable to connect to server. Please refresh the page.'' w
             else w)\<lparr> connectionStatus := Error \<rparr>"
  have step: "deliver run_conn_cb u (ConnectError err) (st, w) = (?st1, ?w1)"
    using handle_connect_error_hooked [OF Suc.prems] by simp
  have h1: "hooked ?st1" using Suc.prems by (simp add: hooked_reconnectAttempts)
  have w1: "connectionStatus ?w1 = Error" by simp
  from Suc.IH [OF h1, of ?w1] step w1 show ?case
    by (cases n) (simp_all add: replicate_Suc)
qed

lemma handle_reconnect_failed_hooked:
  assumes "hooked st"
  shows "handle_reconnect_failed run_conn_cb (st, w) =
           (st, toast_error ''Failed to reconnect. Please refresh the page.'' w)"
proof -
  from assms have "listeners_of st ''custom:reconnect_failed'' = []"
    by (simp add: hooked_def)
  then show ?thesis
    by (simp add: handle_reconnect_failed_def emit_listeners_of Let_def)
qed

text \<open>The socket is created with five reconnection attempts.\<close>

lemma connect_options:
  "map_option (\<lambda>s. reconnectionAttempts (options s)) (socket (connect constructor)) = Some 5"
  by (simp add: connect_def constructor_def socket_connected_def)

text \<open>
  C4, as the code has it. With the hook's listeners registered, every \<open>connect_error\<close>
  event, the first as well as the fifth, sets the connection status to \<open>error\<close> and
  raises \<open>reconnectAttempts\<close> by one, and the handler makes no call on the socket; an
  event that brings the counter to \<open>maxReconnectAttempts\<close> or beyond also shows the
  toast that asks for a page refresh. The status \<open>error\<close> is not terminal: a \<open>connect\<close>
  event that follows sets \<open>connected\<close> and resets the counter to 0. A
  \<open>reconnect_failed\<close> event leaves the status as it is.
\<close>

theorem connect_error_sets_error_status:
  assumes "hooked st"
  shows "connectionStatus (snd (deliver_all run_conn_cb u (replicate (Suc n) (ConnectError err)) (st, w)))
           = Error \<and>
         reconnectAttempts (fst (deliver_all run_conn_cb u (replicate (Suc n) (ConnectError err)) (st, w)))
           = reconnectAttempts st + Suc n \<and>
         socket (fst (deliver_all run_conn_cb u (replicate (Suc n) (ConnectError err)) (st, w)))
           = socket st \<and>
         toasts (snd (deliver run_conn_cb u (ConnectError err) (st, w)))
           = toasts w @
             (if maxReconnectAttempts st \<le> reconnectAttempts st + 1
              then [ToastError ''Unable to connect to server. Please refresh the page.''] else []) \<and>
         connectionStatus (snd (deliver run_conn_cb u Connect
             (deliver_all run_conn_cb u (replicate (Suc n) (ConnectError err)) (st, w)))) = Connected \<and>
         reconnectAttempts (fst (deliver run_conn_cb u Connect
             (deliver_all run_conn_cb u (replicate (Suc n) (ConnectError err)) (st, w)))) = 0 \<and>
         connectionStatus (snd (deliver run_conn_cb u ReconnectFailed (st, w))) = connectionStatus w"
proof -
  let ?s = "deliver_all run_conn_cb u (replicate (Suc n) (ConnectError err)) (st, w)"
  note run = connect_errors_hooked [OF assms, of u "Suc n" err w]
  from run have h: "hooked (fst ?s)" by simp
  have c: "deliver run_conn_cb u Connect ?s = handle_connect run_conn_cb u (fst ?s, snd ?s)"
    by simp
  have t: "toasts (snd (deliver run_conn_cb u (ConnectError err) (st, w)))
           = toasts w @
             (if maxReconnectAttempts st \<le> reconnectAttempts st + 1
              then [ToastError ''Unable to connect to server. Please refresh the page.''] else [])"
    by (simp add: handle_connect_error_hooked [OF assms] toast_error_def)
  have f: "connectionStatus (snd (deliver run_conn_cb u ReconnectFailed (st, w))) = connectionStatus w"
    by (simp add: handle_reconnect_failed_hooked [OF assms] toast_error_def)
  from run t f handle_connect_hooked [OF h, of u "snd ?s"] show ?thesis
    unfolding c by simp
qed

text \<open>
  C4 as stated fails: after five \<open>connect_error\<close> events in a row the status is
  \<open>error\<close>, the status that one such event gives already, and a \<open>connect\<close> event
  after the five takes it to \<open>connected\<close>.
\<close>

theorem connect_error_sets_error_status_counterexample:
  "connectionStatus (snd (deliver_all run_conn_cb (Some alice)
      (replicate 5 (ConnectError ''timeout'') @ [Connect]) started)) = Connected \<and>
   connectionStatus (snd (deliver_all run_conn_cb (Some alice)
      (replicate 5 (ConnectError ''timeout'')) started)) = Error \<and>
   connectionStatus (snd (deliver_all run_conn_cb (Some alice)
      [ConnectError ''timeout''] started)) = Error"
proof -
  let ?s = "deliver_all run_conn_cb (Some alice) (replicate 5 (ConnectError ''timeout'')) (fst started, snd started)"
  note five = connect_errors_hooked [OF hooked_started, of "Some alice" 5 "''timeout''" "snd started"]
  note one = connect_errors_hooked [OF hooked_started, of "Some alice" 1 "''timeout''" "snd started"]
  from five have h: "hooked (fst ?s)" by simp
  have "connectionStatus (snd (handle_connect run_conn_cb (Some alice) (fst ?s, snd ?s))) = Connected"
    using handle_connect_hooked [OF h, of "Some alice" "snd ?s"] by simp
  then have "connectionStatus (snd (deliver_all run_conn_cb (Some alice)
      (replicate 5 (ConnectError ''timeout'') @ [Connect]) started)) = Connected"
    by (simp add: deliver_all_append)
  moreover from five have "connectionStatus (snd (deliver_all run_conn_cb (Some alice)
      (replicate 5 (ConnectError ''timeout'')) started)) = Error" by simp
  moreover from one have "connectionStatus (snd (deliver_all run_conn_cb (Some alice)
      [ConnectError ''timeout''] started)) = Error" by simp
  ultimately show ?thesis by simp
qed

theorem connect_error_sets_error_status_witness:
  "hooked (fst started) \<and>
   connectionStatus (snd (deliver_all run_conn_cb (Some alice)
      (replicate (Suc 4) (ConnectError ''timeout'')) (fst started, snd started))) = Error \<and>
   reconnectAttempts (fst (deliver_all run_conn_cb (Some alice)
      (replicate (Suc 4) (ConnectError ''timeout'')) (fst started, snd started))) = 5 \<and>
   connectionStatus (snd (deliver run_conn_cb (Some alice) Connect
      (deliver_all run_conn_cb (Some alice)
         (replicate (Suc 4) (ConnectError ''timeout'')) (fst started, snd started)))) = Connected"
proof -
  have a: "reconnectAttempts (fst started) = 0"
    by (simp add: started_def connectSocket_def alice_def Let_def setupConnectionListeners_def
        on_def socket_call_def connect_def constructor_def socket_connected_def)
  from connect_error_sets_error_status [OF hooked_started, of "Some alice" 4 "''timeout''" "snd started"]
    hooked_started a
  show ?thesis by simp
qed

section \<open>The session state\<close>

text \<open>
  C5, as the code has it. From every execution state, \<open>execution-started\<close> sets the
  slot to running, with the event's user name and neither result nor error.
  \<open>execution-result\<close> clears \<open>isRunning\<close>, stores the event's \<open>result\<close> and sets
  \<open>error\<close> to \<open>null\<close>; \<open>execution-error\<close> clears \<open>isRunning\<close>, sets \<open>result\<close> to
  \<open>null\<close> and stores the event's \<open>error\<close>. So the two are never both populated, and
  exactly one of them is populated when the field the event carries is not \<open>null\<close>;
  when it is \<open>null\<close> or absent, neither is.
\<close>

theorem execution_slot:
  "executionState (session_event (ExecutionStarted name) s) =
     \<lparr> isRunning = True, result = None, error = None, executedBy = name \<rparr> \<and>
   executionState (session_event (ExecutionResult r by) s) =
     \<lparr> isRunning = False, result = r, error = None, executedBy = by \<rparr> \<and>
   executionState (session_event (ExecutionError e) s) =
     \<lparr> isRunning = False, result = None, error = e, executedBy = None \<rparr> \<and>
   \<not> (result (executionState (session_event (ExecutionResult r by) s)) \<noteq> None \<and>
      error (executionState (session_event (ExecutionResult r by) s)) \<noteq> None) \<and>
   \<not> (result (executionState (session_event (ExecutionError e) s)) \<noteq> None \<and>
      error (executionState (session_event (ExecutionError e) s)) \<noteq> None) \<and>
   ((result (executionState (session_event (ExecutionResult r by) s)) = None)
      \<noteq> (error (executionState (session_event (ExecutionResult r by) s)) = None))
     = (r \<noteq> None) \<and>
   ((result (executionState (session_event (ExecutionError e) s)) = None)
      \<noteq> (error (executionState (session_event (ExecutionError e) s)) = None))
     = (e \<noteq> None)"
  by auto

text \<open>
  C5 as stated fails: while \<open>bob\<close>'s execution is running, an \<open>execution-result\<close>
  event whose \<open>result\<close> is \<open>null\<close> ends it with neither \<open>result\<close> nor \<open>error\<close>
  populated, and so does an \<open>execution-error\<close> event without an \<open>error\<close>.
\<close>

theorem execution_slot_counterexample:
  "executionState (session_events [ExecutionStarted (Some ''bob''), ExecutionResult None (Some ''bob'')]
      (useSessionSocket_initial :: (string, string) session_state)) =
     \<lparr> isRunning = False, result = None, error = None, executedBy = Some ''bob'' \<rparr> \<and>
   executionState (session_events [ExecutionStarted (Some ''bob''), ExecutionError None]
      (useSessionSocket_initial :: (string, string) session_state)) =
     \<lparr> isRunning = False, result = None, error = None, executedBy = None \<rparr>"
  by simp

text \<open>
  C9, as the code has it. \<open>session-participants\<close> stores the list it receives, so the
  roster is free of duplicate connection ids exactly when that list is; \<open>user-joined\<close>
  appends without looking, so it keeps the roster free of duplicates exactly when the
  new connection id is not in it yet; \<open>user-left\<close> keeps a duplicate-free roster so and
  removes every entry of the connection id that left.
\<close>

theorem roster_distinct:
  "distinct (map socketId (participants (session_event (SessionParticipants ps) s)))
     = distinct (map socketId ps) \<and>
   distinct (map socketId (participants (session_event (UserJoined u) s)))
     = (distinct (map socketId (participants s)) \<and> socketId u \<notin> socketId ` set (participants s)) \<and>
   (distinct (map socketId (participants s)) \<longrightarrow>
      distinct (map socketId (participants (session_event (UserLeft sid u) s)))) \<and>
   sid \<notin> socketId ` set (participants (session_event (UserLeft sid u) s))"
  by (auto simp: distinct_map_filter)

theorem roster_distinct_witness:
  "distinct (map socketId (participants (session_event (SessionParticipants [bob, carol])
      (useSessionSocket_initial :: (string, string) session_state)))) \<and>
   distinct (map socketId (participants (session_event (UserLeft ''s1'' bob)
      (session_event (SessionParticipants [bob, carol])
         (useSessionSocket_initial :: (string, string) session_state))))) \<and>
   participants (session_event (UserLeft ''s1'' bob)
      (session_event (SessionParticipants [bob, carol])
         (useSessionSocket_initial :: (string, string) session_state))) = [carol]"
  using roster_distinct [of "[bob, carol]"
      "session_event (SessionParticipants [bob, carol])
         (useSessionSocket_initial :: (string, string) session_state)" bob "''s1''"]
  by (simp add: bob_def carol_def)

text \<open>
  C9 as stated fails: the roster holds \<open>bob\<close> under the connection id \<open>s1\<close>, and a
  \<open>user-joined\<close> event for the same connection id appends a second entry.
\<close>

theorem roster_distinct_counterexample:
  "distinct (map socketId (participants (session_event (SessionParticipants [bob])
      (useSessionSocket_initial :: (string, string) session_state)))) \<and>
   \<not> distinct (map socketId (participants (session_event (UserJoined bob)
      (session_event (SessionParticipants [bob])
         (useSessionSocket_initial :: (string, string) session_state))))) \<and>
   participants (session_event (UserJoined bob)
      (session_event (SessionParticipants [bob])
         (useSessionSocket_initial :: (string, string) session_state))) = [bob, bob]"
  by (simp add: useSessionSocket_initial_def)

text \<open>
  C7, at the messages with the ids 1, 2, 2, 3. The hook's \<open>chat-message\<close> listener
  appends each of them: \<open>chatMessages\<close> holds the id 2 twice. The chat window's history
  holds each id once when every arrival is rendered by itself, and holds the id 2 twice
  when the four arrive within one render, because the filter compares a message with the
  history only. The list the window renders joins the history with the property again
  and holds every message at least twice.
\<close>

theorem chat_1223_duplicates:
  "map msg_id (chatMessages (session_events (map ChatMessage chat_1223)
      (useSessionSocket_initial :: (string, string) session_state))) = [1, 2, 2, 3] \<and>
   map msg_id (messageHistory (chat (page_steps False True True
      (map (\<lambda>m. Inbound (ChatMessage m)) chat_1223) (page_initial :: (string, string) page))))
     = [1, 2, 3] \<and>
   map msg_id (messageHistory (update_history chat_1223 ChatWindow_initial)) = [1, 2, 2, 3] \<and>
   map msg_id (allMessages chat_1223 (chat (page_steps False True True
      (map (\<lambda>m. Inbound (ChatMessage m)) chat_1223) (page_initial :: (string, string) page))))
     = [1, 1, 2, 2, 2, 3, 3]"
  by (simp add: allMessages_def chat_1223_def ChatWindow_initial_def update_history_def
      page_initial_def useSessionSocket_initial_def Let_def)

text \<open>Only the \<open>isTyping: false\<close> event for a user takes that user out of the set.\<close>

lemma typingUsers_page_step_other:
  "a \<noteq> Inbound (TypingStatusUpdate U False) \<Longrightarrow>
     U \<in> set (typingUsers (session pg)) \<Longrightarrow>
     U \<in> set (typingUsers (session (page_step ro ic ss a pg)))"
proof (cases a)
  case (Inbound ev)
  assume "a \<noteq> Inbound (TypingStatusUpdate U False)" "U \<in> set (typingUsers (session pg))"
  with Inbound show ?thesis
    by (cases ev) (auto simp: Let_def set_add_def set_delete_def)
qed simp_all

lemma typingUsers_page_steps:
  "Inbound (TypingStatusUpdate U False) \<notin> set acts \<Longrightarrow>
     U \<in> set (typingUsers (session pg)) \<Longrightarrow>
     U \<in> set (typingUsers (session (page_steps ro ic ss acts pg)))"
proof (induction acts arbitrary: pg)
  case Nil
  then show ?case by simp
next
  case (Cons a acts)
  from Cons.prems have "a \<noteq> Inbound (TypingStatusUpdate U False)" by auto
  from typingUsers_page_step_other [OF this Cons.prems(2)] Cons.IH Cons.prems(1)
  show ?case by simp
qed

text \<open>
  C6, as the code has it. A user added to \<open>typingUsers\<close> by a
  \<open>typing-status-update\<close> event with \<open>isTyping: true\<close> stays in the set through every
  later step of the page (inbound events, what the local user does, and every timer of
  the page firing) unless one of the steps is the event with \<open>isTyping: false\<close> for that
  user, which removes the user. No timer clears the flag.
\<close>

theorem typing_flag_cleared_only_by_event:
  "U \<in> set (typingUsers (session (page_step ro ic ss (Inbound (TypingStatusUpdate U True)) pg))) \<and>
   (Inbound (TypingStatusUpdate U False) \<notin> set acts \<longrightarrow>
      U \<in> set (typingUsers (session (page_steps ro ic ss acts
             (page_step ro ic ss (Inbound (TypingStatusUpdate U True)) pg))))) \<and>
   U \<notin> set (typingUsers (session (page_step ro ic ss (Inbound (TypingStatusUpdate U False)) pg)))"
proof -
  have a: "U \<in> set (typingUsers (session (page_step ro ic ss (Inbound (TypingStatusUpdate U True)) pg)))"
    by (simp add: Let_def set_add_def)
  have c: "U \<notin> set (typingUsers (session (page_step ro ic ss (Inbound (TypingStatusUpdate U False)) pg)))"
    by (simp add: Let_def set_delete_def)
  from a c typingUsers_page_steps [OF _ a] show ?thesis by blast
qed

text \<open>
  C6 as stated fails: \<open>bob\<close> is marked as typing, the local user types in the chat
  input, which starts the three-second timer, and the timers of the page fire with no
  further network event. The chat window's timer has run out, and \<open>bob\<close> is still in the
  typing set.
\<close>

theorem typing_flag_cleared_only_by_event_counterexample:
  "''bob'' \<in> set (typingUsers (session (page_steps False True True
      [Inbound (TypingStatusUpdate ''bob'' True), ChatInput ''hi'', ChatTypingTimeout,
       EditorTypingTimeout, DebounceTimeout]
      (page_initial :: (string, string) page)))) \<and>
   \<not> typingTimeoutRef (chat (page_steps False True True
      [Inbound (TypingStatusUpdate ''bob'' True), ChatInput ''hi'', ChatTypingTimeout,
       EditorTypingTimeout, DebounceTimeout]
      (page_initial :: (string, string) page))) \<and>
   typingTimeoutRef (chat (page_steps False True True
      [Inbound (TypingStatusUpdate ''bob'' True), ChatInput ''hi'']
      (page_initial :: (string, string) page)))"
  by (simp add: page_initial_def useSessionSocket_initial_def ChatWindow_initial_def
      CodeEditor_initial_def Let_def set_add_def update_history_def handleInputChange_def
      setIsTyping_def typing_effect_def typing_timeout_def trim_def is_space_def
      editor_typing_timeout_def debounce_fired_def)

theorem typing_flag_cleared_only_by_event_witness:
  "Inbound (TypingStatusUpdate ''bob'' False) \<notin>
      set ([ChatInput ''hi'', ChatTypingTimeout, Inbound (TypingStatusUpdate ''eve'' False),
            EditorTypingTimeout] :: (string, string) page_action list) \<and>
   ''bob'' \<in> set (typingUsers (session (page_steps False True True
      [ChatInput ''hi'', ChatTypingTimeout, Inbound (TypingStatusUpdate ''eve'' False),
       EditorTypingTimeout]
      (page_step False True True (Inbound (TypingStatusUpdate ''bob'' True))
         (page_initial :: (string, string) page)))))"
  using typing_flag_cleared_only_by_event [of "''bob''" False True True "page_initial :: (string, string) page"
      "[ChatInput ''hi'', ChatTypingTimeout, Inbound (TypingStatusUpdate ''eve'' False), EditorTypingTimeout]"]
  by simp


section \<open>The document buffer\<close>

text \<open>Every template has text.\<close>

lemma getLanguageTemplate_nonempty: "getLanguageTemplate lang \<noteq> []"
  by (simp add: getLanguageTemplate_def template_javascript_def template_python_def
      template_cpp_def template_c_def template_java_def template_go_def template_rust_def)

text \<open>What the steps of a render do to each field of the component.\<close>

lemma setValue_fields:
  "suppressNextChangeRef (setValue ro ic ss t e) = suppressNextChangeRef e"
  "isEditorReady (setValue ro ic ss t e) = isEditorReady e"
  "language (setValue ro ic ss t e) = language e"
  "rendered (setValue ro ic ss t e) = rendered e"
  "editorRef (setValue ro ic ss t e) = (if editorRef e = None then None else Some t)"
  "code (setValue ro ic ss t e) = (if editorRef e = None \<or> suppressNextChangeRef e then code e else t)"
  by (auto simp: setValue_def contentChanged_def Let_def split: option.splits)

lemma value_effect_fields:
  "suppressNextChangeRef (value_effect ro ic ss e) = suppressNextChangeRef e"
  "isEditorReady (value_effect ro ic ss e) = isEditorReady e"
  "language (value_effect ro ic ss e) = language e"
  "rendered (value_effect ro ic ss e) = rendered e"
  "editorRef (value_effect ro ic ss e) = (if editorRef e = None then None else Some (rendered e))"
  "code (value_effect ro ic ss e) =
     (if editorRef e = None \<or> suppressNextChangeRef e then code e
      else if ro \<or> editorRef e \<noteq> Some (rendered e) then rendered e else code e)"
  by (auto simp: value_effect_def setValue_fields split: option.splits)

lemma template_effect_fields:
  "suppressNextChangeRef (template_effect ro ic ss e) = suppressNextChangeRef e"
  "isEditorReady (template_effect ro ic ss e) = isEditorReady e"
  "language (template_effect ro ic ss e) = language e"
  "rendered (template_effect ro ic ss e) = rendered e"
  "editorRef (template_effect ro ic ss e) =
     (if isEditorReady e \<and> rendered e = [] \<and> editorRef e \<noteq> None
      then Some (getLanguageTemplate (language e)) else editorRef e)"
  "code (template_effect ro ic ss e) =
     (if isEditorReady e \<and> rendered e = [] then getLanguageTemplate (language e) else code e)"
  by (auto simp: template_effect_def setValue_fields Let_def split: option.splits)

lemma commit_fields:
  "suppressNextChangeRef (commit ro ic ss e) = suppressNextChangeRef e"
  "isEditorReady (commit ro ic ss e) = isEditorReady e"
  "language (commit ro ic ss e) = language e"
  "rendered (commit ro ic ss e) = code e"
  by (auto simp: commit_def template_effect_fields value_effect_fields)

lemma code_commit:
  "code (commit ro ic ss e) =
     (if code e \<noteq> rendered e \<and> isEditorReady e \<and> code e = []
      then getLanguageTemplate (language e) else code e)"
  by (auto simp: commit_def template_effect_fields value_effect_fields)

lemma editorRef_commit:
  "editorRef (commit ro ic ss e) =
     (if code e = rendered e \<or> editorRef e = None then editorRef e
      else if isEditorReady e \<and> code e = [] then Some (getLanguageTemplate (language e))
      else Some (code e))"
  by (auto simp: commit_def template_effect_fields value_effect_fields)

text \<open>After two renders a further render changes nothing.\<close>

lemma commit_settle: "commit ro ic ss (settle ro ic ss e) = settle ro ic ss e"
proof -
  have "code (settle ro ic ss e) = rendered (settle ro ic ss e)"
    by (auto simp: settle_def commit_fields code_commit getLanguageTemplate_nonempty)
  then show ?thesis by (simp add: commit_def)
qed

lemma settle_fields:
  "suppressNextChangeRef (settle ro ic ss e) = suppressNextChangeRef e"
  "isEditorReady (settle ro ic ss e) = isEditorReady e"
  "language (settle ro ic ss e) = language e"
  by (simp_all add: settle_def commit_fields)

text \<open>
  From a state in which editor and \<open>code\<close> agree, the renders end at rest, with the
  template in place of an empty text.
\<close>

lemma settle_buffer:
  assumes "isEditorReady e" and "editorRef e = Some (code e)" and "\<not> suppressNextChangeRef e"
    and "code e = rendered e \<longrightarrow> code e \<noteq> []"
  shows "at_rest (settle ro ic ss e) \<and>
         code (settle ro ic ss e) =
           (if code e = [] then getLanguageTemplate (language e) else code e)"
  using assms
  by (auto simp: at_rest_def settle_def commit_fields code_commit editorRef_commit
      getLanguageTemplate_nonempty)

text \<open>The callback, where it accepts and where it rejects.\<close>

lemma onCodeChange_at_rest:
  assumes "at_rest e" and "from \<noteq> Some ''self''"
  shows "onCodeChange ro ic ss c operation from e = e\<lparr> editorRef := Some c, code := c \<rparr>"
  using assms
  by (simp add: onCodeChange_def at_rest_def setValue_def contentChanged_def Let_def)

lemma onCodeChange_rejected:
  "from = Some ''self'' \<or> editorRef e = None \<or> suppressNextChangeRef e \<Longrightarrow>
     onCodeChange ro ic ss c operation from e = e"
  by (auto simp: onCodeChange_def)

lemma accepted_at_rest:
  assumes "at_rest e" and "from \<noteq> Some ''self''"
  shows "at_rest (editor_code_change ro ic ss c operation from e) \<and>
         code (editor_code_change ro ic ss c operation from e) =
           (if c = [] then getLanguageTemplate (language e) else c)"
proof -
  let ?e' = "e\<lparr> editorRef := Some c, code := c \<rparr>"
  have e': "onCodeChange ro ic ss c operation from e = ?e'"
    by (rule onCodeChange_at_rest [OF assms])
  show ?thesis
  proof (cases "?e' = e")
    case True
    then have "code ?e' = code e" by simp
    then have "c = code e" by simp
    with assms(1) have "c \<noteq> []" by (simp add: at_rest_def)
    with True e' assms(1) \<open>c = code e\<close> show ?thesis
      by (simp add: editor_code_change_def Let_def)
  next
    case False
    from assms(1) have "isEditorReady ?e'" "editorRef ?e' = Some (code ?e')"
      "\<not> suppressNextChangeRef ?e'" "code ?e' = rendered ?e' \<longrightarrow> code ?e' \<noteq> []"
      by (auto simp: at_rest_def)
    from settle_buffer [OF this, of ro ic ss] False e' show ?thesis
      by (simp add: editor_code_change_def Let_def)
  qed
qed

text \<open>
  The whole state after an accepted event with new code that is not empty. The element
  writes a read-only editor once more, which runs the content listener.
\<close>

lemma accepted_whole_state:
  assumes "at_rest e" and "from \<noteq> Some ''self''" and "c \<noteq> []" and "c \<noteq> code e"
  shows "editor_code_change ro ic ss c operation from e =
     (if ro
      then e\<lparr> editorRef := Some c, code := c, rendered := c, ed_isTyping := True,
              notified := notified e @ [c] \<rparr>
      else e\<lparr> editorRef := Some c, code := c, rendered := c \<rparr>)"
proof -
  let ?e' = "e\<lparr> editorRef := Some c, code := c \<rparr>"
  have e': "onCodeChange ro ic ss c operation from e = ?e'"
    by (rule onCodeChange_at_rest [OF assms(1,2)])
  from assms(4) have ne: "?e' \<noteq> e"
    by (metis editor.select_convs(4) editor.surjective editor.update_convs(4))
  from assms(1,3,4) have c1: "commit ro ic ss ?e' =
     (if ro
      then e\<lparr> editorRef := Some c, code := c, rendered := c, ed_isTyping := True,
              notified := notified e @ [c] \<rparr>
      else e\<lparr> editorRef := Some c, code := c, rendered := c \<rparr>)"
    by (simp add: commit_def value_effect_def template_effect_def setValue_def
        contentChanged_def at_rest_def Let_def)
  have c2: "commit ro ic ss (commit ro ic ss ?e') = commit ro ic ss ?e'"
    unfolding c1 by (simp add: commit_def)
  from e' ne c1 c2 show ?thesis
    by (simp add: editor_code_change_def settle_def Let_def)
qed

lemma editor_code_sync_as_change:
  "editor_code_sync ro ic ss c e = editor_code_change ro ic ss c ''sync'' (Some ''server'') e"
  by (simp add: editor_code_sync_def editor_code_change_def)

text \<open>
  Mounting leads to a state at rest, and typing, inbound events and timers keep the
  editor at rest: these are the states in which an event finds a mounted editor.
\<close>

lemma at_rest_user_edit:
  assumes "at_rest e"
  shows "at_rest (user_edit ro ic ss t e) \<and>
         code (user_edit ro ic ss t e) = (if t = [] then getLanguageTemplate (language e) else t)"
proof -
  let ?e' = "setValue ro ic ss t e"
  from assms have "isEditorReady ?e'" "editorRef ?e' = Some (code ?e')"
    "\<not> suppressNextChangeRef ?e'" "code ?e' = rendered ?e' \<longrightarrow> code ?e' \<noteq> []"
    "code ?e' = t" "language ?e' = language e"
    by (auto simp: at_rest_def setValue_fields)
  from settle_buffer [OF this(1-4), of ro ic ss] this(5,6) show ?thesis
    by (simp add: user_edit_def setValue_fields)
qed

lemma at_rest_timers:
  "at_rest e \<Longrightarrow> at_rest (editor_typing_timeout e) \<and> at_rest (debounce_fired e)"
  by (auto simp: at_rest_def editor_typing_timeout_def debounce_fired_def split: option.splits)

lemma at_rest_mount:
  assumes "\<not> isEditorReady e" and "editorRef e = None" and "\<not> suppressNextChangeRef e"
    and "code e = []" and "rendered e = []"
  shows "at_rest (mount ro ic ss e) \<and> code (mount ro ic ss e) = getLanguageTemplate (language e)"
proof -
  let ?e' = "handleEditorDidMount ro ic ss e"
  from assms have "isEditorReady ?e'" "editorRef ?e' = Some (code ?e')"
    "\<not> suppressNextChangeRef ?e'" "code ?e' = rendered ?e' \<longrightarrow> code ?e' \<noteq> []"
    "code ?e' = getLanguageTemplate (language e)" "language ?e' = language e"
    by (auto simp: handleEditorDidMount_def Let_def setValue_fields getLanguageTemplate_nonempty)
  from settle_buffer [OF this(1-4), of ro ic ss] this(5,6) show ?thesis
    by (simp add: mount_def getLanguageTemplate_nonempty setValue_fields)
qed

text \<open>Every state the mounted editor reaches is at rest; in particular the flag is down.\<close>

lemma at_rest_editor_step: "at_rest e \<Longrightarrow> at_rest (editor_step ro ic ss a e)"
proof (cases a)
  case (UserEdit t)
  assume "at_rest e"
  with UserEdit show ?thesis by (simp add: at_rest_user_edit)
next
  case (CodeChangeEvent c operation origin)
  assume r: "at_rest e"
  show ?thesis
  proof (cases "origin = Some ''self''")
    case True
    with r CodeChangeEvent show ?thesis
      by (simp add: editor_code_change_def onCodeChange_rejected)
  next
    case False
    with r CodeChangeEvent accepted_at_rest [OF r False] show ?thesis by simp
  qed
next
  case (CodeSyncEvent c)
  assume r: "at_rest e"
  from accepted_at_rest [OF r, of "Some ''server''"] CodeSyncEvent show ?thesis
    by (simp add: editor_code_sync_as_change)
next
  case TypingTimer
  assume "at_rest e"
  with TypingTimer show ?thesis by (simp add: at_rest_timers)
next
  case DebounceTimer
  assume "at_rest e"
  with DebounceTimer show ?thesis by (simp add: at_rest_timers)
qed

lemma at_rest_editor_steps: "at_rest e \<Longrightarrow> at_rest (editor_steps ro ic ss acts e)"
  by (induction acts arbitrary: e) (simp_all add: at_rest_editor_step)

lemma reached_at_rest:
  "at_rest (editor_steps ro ic ss acts (mount ro ic ss CodeEditor_initial)) \<and>
   \<not> suppressNextChangeRef (editor_steps ro ic ss acts (mount ro ic ss CodeEditor_initial))"
proof -
  have "at_rest (mount ro ic ss CodeEditor_initial)"
    using at_rest_mount [of CodeEditor_initial ro ic ss] by (simp add: CodeEditor_initial_def)
  then have "at_rest (editor_steps ro ic ss acts (mount ro ic ss CodeEditor_initial))"
    by (rule at_rest_editor_steps)
  then show ?thesis by (simp add: at_rest_def)
qed

lemma at_rest_mounted: "at_rest mounted \<and> code mounted = template_javascript"
  using at_rest_mount [of CodeEditor_initial False False True]
  by (simp add: mounted_def CodeEditor_initial_def getLanguageTemplate_def)




text \<open>
  C2, as the code has it. The \<open>codeState\<close> of \<open>useSessionSocket\<close> takes the code of
  every \<open>code-sync\<close> event. The editor drops the event before it has mounted and while
  the flag \<open>suppressNextChangeRef\<close> is up. On a mounted editor at rest the buffer
  becomes the event's code, or the language template when the event's code is empty.
\<close>

theorem code_sync_replaces:
  "codeState (session_event (CodeSync c) s) = c \<and>
   (editorRef e = None \<or> suppressNextChangeRef e \<longrightarrow> editor_code_sync ro ic ss c e = e) \<and>
   (at_rest e \<longrightarrow>
      editorRef (editor_code_sync ro ic ss c e) =
        Some (if c = [] then getLanguageTemplate (language e) else c) \<and>
      code (editor_code_sync ro ic ss c e) =
        (if c = [] then getLanguageTemplate (language e) else c) \<and>
      at_rest (editor_code_sync ro ic ss c e))"
proof -
  have r: "editorRef e = None \<or> suppressNextChangeRef e \<longrightarrow> editor_code_sync ro ic ss c e = e"
    by (auto simp: editor_code_sync_def onCodeChange_rejected)
  have d: "at_rest e \<longrightarrow>
      editorRef (editor_code_sync ro ic ss c e) =
        Some (if c = [] then getLanguageTemplate (language e) else c) \<and>
      code (editor_code_sync ro ic ss c e) =
        (if c = [] then getLanguageTemplate (language e) else c) \<and>
      at_rest (editor_code_sync ro ic ss c e)"
  proof
    assume "at_rest e"
    from accepted_at_rest [OF this, of "Some ''server''" ro ic ss c "''sync''"]
    show "editorRef (editor_code_sync ro ic ss c e) =
        Some (if c = [] then getLanguageTemplate (language e) else c) \<and>
      code (editor_code_sync ro ic ss c e) =
        (if c = [] then getLanguageTemplate (language e) else c) \<and>
      at_rest (editor_code_sync ro ic ss c e)"
      by (auto simp: at_rest_def editor_code_sync_as_change)
  qed
  from r d show ?thesis by simp
qed

theorem code_sync_replaces_witness:
  "at_rest mounted \<and>
   editorRef (editor_code_sync False False True ''x=1'' mounted) = Some ''x=1'' \<and>
   code (editor_code_sync False False True ''x=1'' mounted) = ''x=1'' \<and>
   editorRef CodeEditor_initial = None \<and>
   editor_code_sync False True True ''x=1'' CodeEditor_initial = CodeEditor_initial"
proof -
  have n: "editorRef CodeEditor_initial = None" by (simp add: CodeEditor_initial_def)
  from code_sync_replaces [of "''x=1''" _ mounted False False True]
    code_sync_replaces [of "''x=1''" _ CodeEditor_initial False True True]
    at_rest_mounted n
  show ?thesis by simp
qed

text \<open>
  C2 as stated fails in the editor: a \<open>code-sync\<close> that arrives before the editor has
  mounted is dropped and the buffer stays empty; and a \<open>code-sync\<close> with empty code
  leaves the mounted editor with the JavaScript template, not with the empty document.
\<close>

theorem code_sync_replaces_counterexample:
  "editor_code_sync False True True ''x=1'' CodeEditor_initial = CodeEditor_initial \<and>
   code CodeEditor_initial = [] \<and>
   code (editor_code_sync False False True [] mounted) = template_javascript \<and>
   template_javascript \<noteq> []"
proof -
  have l: "language mounted = ''javascript''"
    by (simp add: mounted_def mount_def settle_fields handleEditorDidMount_def Let_def
        setValue_fields CodeEditor_initial_def)
  from at_rest_mounted have m: "at_rest mounted" by simp
  have "editor_code_sync False True True ''x=1'' CodeEditor_initial = CodeEditor_initial"
    by (simp add: editor_code_sync_def onCodeChange_def CodeEditor_initial_def)
  moreover have "code (editor_code_sync False False True [] mounted) = template_javascript"
    using accepted_at_rest [OF m, of "Some ''server''" False False True "[]" "''sync''"] l
    by (simp add: editor_code_sync_as_change getLanguageTemplate_def)
  moreover have "template_javascript \<noteq> []"
    using getLanguageTemplate_nonempty [of "''javascript''"] by (simp add: getLanguageTemplate_def)
  ultimately show ?thesis by (simp add: CodeEditor_initial_def)
qed

end
